theory Spec2Isabelle
  imports Complex_Main "HOL-Library.List_Lexorder" "HOL-Library.Char_ord"
    "HOL-Library.Product_Lexorder"
begin

section \<open>The prediction engine of \<^verbatim>\<open>backend/services/prediction_engine.py\<close>\<close>

text \<open>
  The engine reads five tables of an SQLite database and computes a forecast for one
  player, one game and one statistical category. The tables are modelled as lists of
  records (one record per row, in table order), each SQL query as a list comprehension
  over them, and each pandas frame as the list of its rows.

  Conventions of the embedding:
  \<^item> a Python or SQL float is a \<^typ>\<open>real\<close>; a numeric cell is the value that the
    query's \<^verbatim>\<open>CAST(... AS FLOAT)\<close> yields. A missing number (NULL, NaN) is modelled
    where the source itself tests for it or drops it (\<^verbatim>\<open>dropna\<close>, \<^verbatim>\<open>pd.isna\<close>,
    \<^verbatim>\<open>IS NOT NULL\<close>, the standard deviation of a single value), as \<open>None\<close>;
  \<^item> a float division written in the Python code is partial (\<open>float_div\<close>): it has
    no value at a zero divisor, where numpy yields an infinity or NaN;
  \<^item> text columns are \<^typ>\<open>string\<close>; SQLite compares them bytewise, which is the
    lexicographic order on \<^typ>\<open>string\<close>;
  \<^item> \<^verbatim>\<open>ORDER BY\<close>, ascending or descending, is a stable sort of the rows in table
    order, and \<^verbatim>\<open>GROUP BY\<close> yields its groups in ascending order of the grouping
    columns (SQL leaves the order of rows with equal keys and the order of groups open;
    this is what SQLite does);
  \<^item> an exception is a value \<open>Inl e\<close> of a sum type;
  \<^item> the \<^verbatim>\<open>factors\<close> list of the result (formatted text) is not modelled.
\<close>

subsection \<open>Enumerations and results\<close>

text \<open>The five categories listed by \<^verbatim>\<open>prop_type_mapping\<close>, with the strings the source uses.\<close>

datatype stat_type = Points | Rebounds | Assists | Steals | Blocks

fun stat_name :: "stat_type \<Rightarrow> string" where
  "stat_name Points = ''points''"
| "stat_name Rebounds = ''rebounds''"
| "stat_name Assists = ''assists''"
| "stat_name Steals = ''steals''"
| "stat_name Blocks = ''blocks''"

text \<open>\<^verbatim>\<open>"High"\<close>, \<^verbatim>\<open>"Medium"\<close>, \<^verbatim>\<open>"Low"\<close>.\<close>

datatype confidence = High | Medium | Low

text \<open>
  \<^verbatim>\<open>"Over"\<close>, \<^verbatim>\<open>"Under"\<close>, \<^verbatim>\<open>"Pass"\<close>, \<^verbatim>\<open>"Pass (Alt Line)"\<close>,
  \<^verbatim>\<open>"No Line Available"\<close>.
\<close>

datatype recommendation = Over | Under | Pass | PassAltLine | NoLineAvailable

text \<open>\<^verbatim>\<open>"Vegas+ Hybrid"\<close>, \<^verbatim>\<open>"Enhanced Statistical"\<close>.\<close>

datatype model_type = VegasPlusHybrid | EnhancedStatistical

text \<open>
  The exceptions: a missing frame column, and a query that SQLite aborts (pandas raises
  \<^verbatim>\<open>DatabaseError\<close> with SQLite's message).
\<close>

datatype error = KeyError string | DatabaseError string

subsection \<open>Numbers\<close>

text \<open>
  \<^verbatim>\<open>round(x, 1)\<close> on a numpy float: scale by ten, round to the nearest integer with
  ties to the even one, scale back.
\<close>

definition rint :: "real \<Rightarrow> int" where
  "rint x = (let f = \<lfloor>x\<rfloor>; d = x - of_int f in
     if d < 1/2 then f else if d > 1/2 then f + 1 else if even f then f else f + 1)"

definition round_1 :: "real \<Rightarrow> real" where
  "round_1 x = of_int (rint (x * 10)) / 10"

text \<open>
  The division of two floats. At a zero divisor it has no value: numpy yields an
  infinity or NaN there, which is \<open>None\<close> here.
\<close>

definition float_div :: "real \<Rightarrow> real \<Rightarrow> real option" where
  "float_div x y = (if y = 0 then None else Some (x / y))"

text \<open>
  \<^verbatim>\<open>Series.mean()\<close> on a frame column without missing values. Every call below is
  behind a length check that makes the list non-empty.
\<close>

definition mean :: "real list \<Rightarrow> real" where
  "mean xs = sum_list xs / real (length xs)"

text \<open>\<^verbatim>\<open>Series.mean()\<close> with missing values skipped; NaN (\<open>None\<close>) when nothing is left.\<close>

definition dropna :: "'a option list \<Rightarrow> 'a list" where
  "dropna xs = concat (map (\<lambda>x. case x of None \<Rightarrow> [] | Some v \<Rightarrow> [v]) xs)"

definition mean_skipna :: "real option list \<Rightarrow> real option" where
  "mean_skipna xs = (let vs = dropna xs in if vs = [] then None else Some (mean vs))"

text \<open>\<^verbatim>\<open>Series.std()\<close>: the sample standard deviation, NaN for fewer than two values.\<close>

definition std :: "real list \<Rightarrow> real option" where
  "std xs = (if length xs < 2 then None
     else Some (sqrt (sum_list (map (\<lambda>x. (x - mean xs)\<^sup>2) xs) / (real (length xs) - 1))))"

text \<open>
  \<^verbatim>\<open>Series.tail(n)\<close>: the last \<open>n\<close> rows; nothing for \<open>n = 0\<close>; all rows but the
  first \<open>-n\<close> for a negative \<open>n\<close>.
\<close>

definition tail :: "int \<Rightarrow> 'a list \<Rightarrow> 'a list" where
  "tail n xs = (if n = 0 then [] else if n > 0 then drop (length xs - nat n) xs
     else drop (nat (- n)) xs)"

text \<open>
  \<^verbatim>\<open>ORDER BY ... DESC\<close>: a stable sort on descending keys, rows with equal keys keep
  their order.
\<close>

definition sort_desc :: "('a \<Rightarrow> 'k::linorder) \<Rightarrow> 'a list \<Rightarrow> 'a list" where
  "sort_desc f xs = rev (sort_key f (rev xs))"

subsection \<open>The database\<close>

record player_boxscore =
  pb_game_id :: string
  pb_season :: string
  pb_athlete_id :: string
  pb_team_id :: string
  pb_points :: real
  pb_rebounds :: real
  pb_assists :: real
  pb_steals :: real
  pb_blocks :: real
  pb_athlete_didNotPlay :: string
  pb_athlete_starter :: string
  pb_minutes :: "int option"
  pb_fga :: "real option"

text \<open>
  \<open>pb_fga\<close> stands for the column \<^verbatim>\<open>fieldGoalsMade_fieldGoalsAttempted\<close>: it holds what
  \<^verbatim>\<open>parse_fga\<close> makes of the cell, the number after the dash, or \<open>None\<close> (NaN) for a
  missing, empty or malformed cell.
\<close>

record basic_event =
  be_event_id :: string
  be_season :: string
  be_date :: string
  be_event_season_type :: int

record team_boxscore =
  tb_game_id :: string
  tb_away_team_id :: string
  tb_home_team_id :: string
  tb_home_score :: real
  tb_away_score :: real
  tb_home_totalRebounds :: real
  tb_away_totalRebounds :: real
  tb_home_assists :: real
  tb_away_assists :: real

record player_prop =
  pp_athlete_id :: string
  pp_game_id :: string
  pp_prop_type :: string
  pp_line :: real
  pp_over_odds :: "string option"
  pp_under_odds :: "string option"

record athlete =
  a_athlete_id :: string
  a_athlete_display_name :: string

record database =
  player_boxscores :: "player_boxscore list"
  basic_events :: "basic_event list"
  team_boxscores :: "team_boxscore list"
  player_props :: "player_prop list"
  athletes :: "athlete list"

text \<open>
  The scalar subquery \<^verbatim>\<open>(SELECT date FROM basic_events WHERE event_id = ?)\<close>: the date
  of the first matching row, NULL when there is none.
\<close>

definition event_date :: "database \<Rightarrow> string \<Rightarrow> string option" where
  "event_date db game_id =
     (case [be_date e. e \<leftarrow> basic_events db, be_event_id e = game_id] of
        [] \<Rightarrow> None | d # _ \<Rightarrow> Some d)"

subsection \<open>\<^verbatim>\<open>get_player_game_log\<close>\<close>

record game_log_entry =
  gl_game_id :: string
  gl_season :: string
  gl_athlete_id :: string
  gl_team_id :: string
  gl_points :: real
  gl_rebounds :: real
  gl_assists :: real
  gl_steals :: real
  gl_blocks :: real
  gl_athlete_didNotPlay :: string
  gl_athlete_starter :: string
  gl_fga :: "real option"
  gl_date :: string

definition game_log_select :: "player_boxscore \<Rightarrow> basic_event \<Rightarrow> game_log_entry" where
  "game_log_select pb be =
     \<lparr>gl_game_id = pb_game_id pb, gl_season = pb_season pb, gl_athlete_id = pb_athlete_id pb,
      gl_team_id = pb_team_id pb, gl_points = pb_points pb, gl_rebounds = pb_rebounds pb,
      gl_assists = pb_assists pb, gl_steals = pb_steals pb, gl_blocks = pb_blocks pb,
      gl_athlete_didNotPlay = pb_athlete_didNotPlay pb,
      gl_athlete_starter = pb_athlete_starter pb, gl_fga = pb_fga pb, gl_date = be_date be\<rparr>"

text \<open>The query of \<^verbatim>\<open>get_player_game_log\<close>, ordered by date ascending.\<close>

definition game_log_query :: "database \<Rightarrow> string \<Rightarrow> string \<Rightarrow> game_log_entry list" where
  "game_log_query db athlete_id season =
     sort_key gl_date
       [game_log_select pb be.
          pb \<leftarrow> player_boxscores db, be \<leftarrow> basic_events db,
          pb_game_id pb = be_event_id be,
          pb_athlete_id pb = athlete_id,
          pb_season pb = season,
          pb_athlete_didNotPlay pb = ''0'',
          pb_minutes pb \<noteq> None,
          pb_minutes pb \<noteq> Some 0,
          be_event_season_type be = 2]"

text \<open>
  \<^verbatim>\<open>df[df['game_id'] == before_game_id].index[0]\<close>: the position of the first row with
  that game id (the frame has the index 0, 1, 2, ...).
\<close>

definition first_index :: "('a \<Rightarrow> bool) \<Rightarrow> 'a list \<Rightarrow> nat" where
  "first_index P xs = length (takeWhile (\<lambda>x. \<not> P x) xs)"

text \<open>
  \<open>before_game_id\<close> is \<open>None\<close> for Python's \<^verbatim>\<open>None\<close>; the empty string is falsy as well.
\<close>

definition get_player_game_log ::
  "database \<Rightarrow> string \<Rightarrow> string \<Rightarrow> string option \<Rightarrow> game_log_entry list" where
  "get_player_game_log db athlete_id season before_game_id =
     (let df = game_log_query db athlete_id season in
      case before_game_id of
        None \<Rightarrow> df
      | Some g \<Rightarrow>
          if g \<noteq> [] \<and> g \<in> set (map gl_game_id df)
          then (let game_idx = first_index (\<lambda>r. gl_game_id r = g) df in take game_idx df)
          else df)"

subsection \<open>\<^verbatim>\<open>get_prop_line\<close>\<close>

definition prop_type_mapping :: "(string \<times> string) list" where
  "prop_type_mapping =
     [(''points'', ''Total Points''), (''rebounds'', ''Total Rebounds''),
      (''assists'', ''Total Assists''), (''steals'', ''Total Steals''),
      (''blocks'', ''Total Blocks'')]"

text \<open>\<^verbatim>\<open>REPLACE(s, '+', '')\<close> in SQL and \<^verbatim>\<open>s.replace('+', '')\<close> in Python.\<close>

definition remove_plus :: "string \<Rightarrow> string" where
  "remove_plus s = filter (\<lambda>c. c \<noteq> CHR ''+'') s"

definition is_digit :: "char \<Rightarrow> bool" where
  "is_digit c = (c \<in> set ''0123456789'')"

definition digits_value :: "string \<Rightarrow> int" where
  "digits_value ds = foldl (\<lambda>acc c. acc * 10 + (of_char c - 48)) 0 ds"

text \<open>
  ASCII whitespace: space, tab, line feed, vertical tab, form feed, carriage return.
  These are the characters that SQLite's cast and Python's \<^verbatim>\<open>int()\<close> skip.
\<close>

definition ascii_space :: "char \<Rightarrow> bool" where
  "ascii_space c = (c \<in> set [CHR 0x20, CHR 0x09, CHR 0x0A, CHR 0x0B, CHR 0x0C, CHR 0x0D])"

text \<open>
  SQLite's \<^verbatim>\<open>CAST(text AS INTEGER)\<close>: leading spaces are skipped, the longest prefix
  that reads as an integer is taken (0 when there is none), and the value is clamped
  to 64 bits.
\<close>

definition sql_cast_integer :: "string \<Rightarrow> int" where
  "sql_cast_integer s =
     (let t = dropWhile ascii_space s;
          neg = (t \<noteq> [] \<and> hd t = CHR ''-'');
          u = (if t \<noteq> [] \<and> (hd t = CHR ''-'' \<or> hd t = CHR ''+'') then tl t else t);
          v = digits_value (takeWhile is_digit u)
      in max (- (2 ^ 63)) (min (2 ^ 63 - 1) (if neg then - v else v)))"

text \<open>The text without the ASCII whitespace at its two ends.\<close>

definition strip :: "string \<Rightarrow> string" where
  "strip s = rev (dropWhile ascii_space (rev (dropWhile ascii_space s)))"

text \<open>Digits, with single underscores allowed between them.\<close>

fun digit_groups :: "string \<Rightarrow> bool" where
  "digit_groups [] = False"
| "digit_groups [c] = is_digit c"
| "digit_groups (c # d # r) =
     (is_digit c \<and> (if d = CHR ''_'' then digit_groups r else digit_groups (d # r)))"

text \<open>
  Python's \<^verbatim>\<open>int(s)\<close> on ASCII text: whitespace at the ends is skipped, then come an
  optional sign and the digits; \<open>None\<close> where it raises \<^verbatim>\<open>ValueError\<close>.
\<close>

definition py_int :: "string \<Rightarrow> int option" where
  "py_int s =
     (let t = strip s;
          neg = (t \<noteq> [] \<and> hd t = CHR ''-'');
          u = (if t \<noteq> [] \<and> (hd t = CHR ''-'' \<or> hd t = CHR ''+'') then tl t else t)
      in if digit_groups u
         then (let v = digits_value (filter (\<lambda>c. c \<noteq> CHR ''_'') u)
               in Some (if neg then - v else v))
         else None)"

record vegas_data =
  vd_line :: real
  vd_has_odds :: bool
  vd_over_odds :: string
  vd_under_odds :: string

text \<open>
  The rows of \<^verbatim>\<open>player_props\<close> for the player, game and prop type whose two odds are
  not NULL: line, over odds, under odds.
\<close>

definition prop_rows ::
  "database \<Rightarrow> string \<Rightarrow> string \<Rightarrow> string \<Rightarrow> (real \<times> string \<times> string) list" where
  "prop_rows db athlete_id game_id prop_type =
     concat (map (\<lambda>r.
       if pp_athlete_id r = athlete_id \<and> pp_game_id r = game_id \<and> pp_prop_type r = prop_type
       then (case (pp_over_odds r, pp_under_odds r) of
               (Some over_odds, Some under_odds) \<Rightarrow> [(pp_line r, over_odds, under_odds)]
             | _ \<Rightarrow> [])
       else []) (player_props db))"

text \<open>
  The key of \<^verbatim>\<open>ORDER BY ABS(CAST(REPLACE(over_odds, '+', '') AS INTEGER) - 110) ASC\<close>.
  SQLite's \<^verbatim>\<open>ABS\<close> of the integer \<open>-2^63\<close> fails with "integer overflow": no key
  (\<open>None\<close>). A difference below \<open>-2^63\<close> is no 64-bit integer; SQLite continues with
  it as a float, and the key is its absolute value.
\<close>

definition prop_order_key :: "real \<times> string \<times> string \<Rightarrow> int option" where
  "prop_order_key r =
     (let d = sql_cast_integer (remove_plus (fst (snd r))) - 110
      in if d = - (2 ^ 63) then None else Some \<bar>d\<bar>)"

text \<open>
  The query fails when a selected row has no key; otherwise the row with the least key
  is taken.
\<close>

definition get_prop_line ::
  "database \<Rightarrow> string \<Rightarrow> string \<Rightarrow> stat_type \<Rightarrow> error + vegas_data option" where
  "get_prop_line db athlete_id game_id stat_type =
     (case map_of prop_type_mapping (stat_name stat_type) of
        None \<Rightarrow> Inr None
      | Some prop_type \<Rightarrow>
          (let rows = prop_rows db athlete_id game_id prop_type in
           case those (map prop_order_key rows) of
             None \<Rightarrow> Inl (DatabaseError ''integer overflow'')
           | Some keys \<Rightarrow>
               (case take 1 (map snd (sort_key fst (zip keys rows))) of
                  [] \<Rightarrow> Inr None
                | (prop_line, over_odds, under_odds) # _ \<Rightarrow>
                    (let has_valid_odds =
                           (case (py_int (remove_plus over_odds),
                                  py_int (remove_plus under_odds)) of
                              (Some over_val, Some under_val) \<Rightarrow>
                                (- 200 \<le> over_val \<and> over_val \<le> 200)
                                \<and> (- 200 \<le> under_val \<and> under_val \<le> 200)
                            | _ \<Rightarrow> False)
                     in Inr (Some \<lparr>vd_line = prop_line, vd_has_odds = has_valid_odds,
                                    vd_over_odds = over_odds,
                                    vd_under_odds = under_odds\<rparr>)))))"

subsection \<open>\<^verbatim>\<open>get_opponent_recent_defense\<close>\<close>

record defense_row =
  dr_game_id :: string
  dr_date :: string
  dr_away_team_id :: string
  dr_home_team_id :: string
  dr_points_allowed :: real
  dr_rebounds_allowed :: real
  dr_assists_allowed :: real

definition defense_select :: "string \<Rightarrow> team_boxscore \<Rightarrow> basic_event \<Rightarrow> defense_row" where
  "defense_select opponent_team_id tb be =
     \<lparr>dr_game_id = tb_game_id tb, dr_date = be_date be,
      dr_away_team_id = tb_away_team_id tb, dr_home_team_id = tb_home_team_id tb,
      dr_points_allowed =
        (if tb_away_team_id tb = opponent_team_id then tb_home_score tb else tb_away_score tb),
      dr_rebounds_allowed =
        (if tb_away_team_id tb = opponent_team_id then tb_home_totalRebounds tb
         else tb_away_totalRebounds tb),
      dr_assists_allowed =
        (if tb_away_team_id tb = opponent_team_id then tb_home_assists tb
         else tb_away_assists tb)\<rparr>"

text \<open>
  The opponent's games of the season before the target game's date, latest first, at
  most \<open>n_recent\<close> of them. A comparison with a NULL date selects nothing.
\<close>

definition defense_query ::
  "database \<Rightarrow> string \<Rightarrow> string \<Rightarrow> string \<Rightarrow> nat \<Rightarrow> defense_row list" where
  "defense_query db opponent_team_id game_id season n_recent =
     (case event_date db game_id of
        None \<Rightarrow> []
      | Some target_date \<Rightarrow>
          take n_recent (sort_desc dr_date
            [defense_select opponent_team_id tb be.
               tb \<leftarrow> team_boxscores db, be \<leftarrow> basic_events db,
               tb_game_id tb = be_event_id be,
               tb_away_team_id tb = opponent_team_id \<or> tb_home_team_id tb = opponent_team_id,
               be_season be = season,
               be_event_season_type be = 2,
               be_date be < target_date]))"

text \<open>The numeric columns of the frame, by name, as \<^verbatim>\<open>df[stat_column]\<close> finds them.\<close>

definition defense_columns :: "(string \<times> (defense_row \<Rightarrow> real)) list" where
  "defense_columns =
     [(''points_allowed'', dr_points_allowed), (''rebounds_allowed'', dr_rebounds_allowed),
      (''assists_allowed'', dr_assists_allowed)]"

definition league_averages :: "(string \<times> real) list" where
  "league_averages = [(''points'', 114.5), (''rebounds'', 44.0), (''assists'', 27.0)]"

record opponent_defense =
  od_adjustment :: real
  od_opponent_avg :: "real option"
  od_league_avg :: "real option"
  od_games_analyzed :: nat

definition get_opponent_recent_defense ::
  "database \<Rightarrow> string \<Rightarrow> string \<Rightarrow> string \<Rightarrow> stat_type \<Rightarrow> nat \<Rightarrow> error + opponent_defense" where
  "get_opponent_recent_defense db opponent_team_id game_id season stat_type n_recent =
     (let df = defense_query db opponent_team_id game_id season n_recent in
      if length df < 3
      then Inr \<lparr>od_adjustment = 0.0, od_opponent_avg = None, od_league_avg = None,
                od_games_analyzed = length df\<rparr>
      else
        (let stat_column = stat_name stat_type @ ''_allowed'' in
         case map_of defense_columns stat_column of
           None \<Rightarrow> Inl (KeyError stat_column)
         | Some column \<Rightarrow>
             (let opponent_avg = mean (map column df);
                  league_avg = (case map_of league_averages (stat_name stat_type) of
                                  None \<Rightarrow> 0 | Some v \<Rightarrow> v);
                  adjustment = (opponent_avg - league_avg) * 0.70
              in Inr \<lparr>od_adjustment = adjustment,
                       od_opponent_avg = Some (round_1 opponent_avg),
                       od_league_avg = Some league_avg,
                       od_games_analyzed = length df\<rparr>)))"

subsection \<open>\<^verbatim>\<open>get_usage_change\<close>\<close>

record usage_info =
  ui_usage_change :: "real option"
  ui_increase_recent_weight :: bool
  ui_recent_fga :: "real option"
  ui_season_fga :: "real option"

definition usage_neutral :: usage_info where
  "usage_neutral = \<lparr>ui_usage_change = Some 0.0, ui_increase_recent_weight = False,
                     ui_recent_fga = None, ui_season_fga = None\<rparr>"

text \<open>
  A NaN mean of the last five attempts makes \<open>pct_change\<close> NaN, and every comparison
  with NaN is false.
\<close>

definition get_usage_change :: "game_log_entry list \<Rightarrow> usage_info" where
  "get_usage_change game_log =
     (if length game_log < 5 then usage_neutral
      else
        (let fga = map gl_fga game_log;
             season_fga = mean_skipna fga;
             recent_fga = mean_skipna (tail 5 fga)
         in case season_fga of
              None \<Rightarrow> usage_neutral
            | Some season \<Rightarrow>
                if season = 0 then usage_neutral
                else
                  (let pct_change =
                         Option.bind recent_fga (\<lambda>recent. float_div (recent - season) season);
                       increase_recent_weight =
                         (case pct_change of None \<Rightarrow> False | Some p \<Rightarrow> \<bar>p\<bar> > 0.20)
                   in \<lparr>ui_usage_change = pct_change,
                       ui_increase_recent_weight = increase_recent_weight,
                       ui_recent_fga = map_option round_1 recent_fga,
                       ui_season_fga = Some (round_1 season)\<rparr>)))"

subsection \<open>\<^verbatim>\<open>get_teammate_context\<close>\<close>

text \<open>
  The rows that the star query joins and filters, before grouping: athlete id, display
  name and points of one played game of a teammate.
\<close>

definition star_rows ::
  "database \<Rightarrow> string \<Rightarrow> string \<Rightarrow> string \<Rightarrow> string \<Rightarrow> (string \<times> string \<times> real) list" where
  "star_rows db athlete_id game_id team_id season =
     (case event_date db game_id of
        None \<Rightarrow> []
      | Some target_date \<Rightarrow>
          [(pb_athlete_id pb, a_athlete_display_name a, pb_points pb).
             pb \<leftarrow> player_boxscores db,
             a \<leftarrow> athletes db, pb_athlete_id pb = a_athlete_id a,
             be \<leftarrow> basic_events db, pb_game_id pb = be_event_id be,
             pb_team_id pb = team_id,
             pb_season pb = season,
             pb_athlete_didNotPlay pb = ''0'',
             pb_athlete_id pb \<noteq> athlete_id,
             be_event_season_type be = 2,
             be_date be < target_date])"

text \<open>
  \<^verbatim>\<open>GROUP BY pb.athlete_id, a.athlete_display_name HAVING AVG(points) > 15.0
  ORDER BY avg_points DESC\<close>: one row per group, with the group's mean.
\<close>

definition group_points :: "(string \<times> string \<times> real) list \<Rightarrow> string \<times> string \<Rightarrow> real list" where
  "group_points rows k = [snd (snd r). r \<leftarrow> rows, (fst r, fst (snd r)) = k]"

definition stars_query ::
  "database \<Rightarrow> string \<Rightarrow> string \<Rightarrow> string \<Rightarrow> string \<Rightarrow> (string \<times> string \<times> real) list" where
  "stars_query db athlete_id game_id team_id season =
     (let rows = star_rows db athlete_id game_id team_id season;
          groups = sort (remdups (map (\<lambda>r. (fst r, fst (snd r))) rows));
          averaged = map (\<lambda>k. (fst k, snd k, mean (group_points rows k))) groups
      in sort_desc (\<lambda>r. snd (snd r)) (filter (\<lambda>r. snd (snd r) > 15.0) averaged))"

record teammate_context =
  tc_missing_stars :: "string list"
  tc_adjustment :: real
  tc_stars_playing :: nat
  tc_stars_total :: nat

definition get_teammate_context ::
  "database \<Rightarrow> string \<Rightarrow> string \<Rightarrow> string \<Rightarrow> string \<Rightarrow> teammate_context" where
  "get_teammate_context db athlete_id game_id team_id season =
     (let stars = stars_query db athlete_id game_id team_id season in
      if stars = []
      then \<lparr>tc_missing_stars = [], tc_adjustment = 0.0, tc_stars_playing = 0,
            tc_stars_total = 0\<rparr>
      else
        (let star_ids = map fst stars;
             playing_stars =
               [pb_athlete_id pb.
                  pb \<leftarrow> player_boxscores db,
                  pb_game_id pb = game_id,
                  pb_team_id pb = team_id,
                  pb_athlete_id pb \<in> set star_ids,
                  pb_athlete_didNotPlay pb = ''0''];
             playing_ids = set playing_stars;
             star_ids_set = set star_ids;
             missing_star_ids = star_ids_set - playing_ids;
             missing_stars = [fst (snd r). r \<leftarrow> stars, fst r \<in> missing_star_ids];
             stars_missing_count = length missing_stars;
             adjustment = real stars_missing_count * 0.125
         in \<lparr>tc_missing_stars = missing_stars, tc_adjustment = adjustment,
             tc_stars_playing = length (remdups playing_stars),
             tc_stars_total = length star_ids\<rparr>))"

subsection \<open>\<^verbatim>\<open>calculate_weighted_average\<close>\<close>

text \<open>\<^verbatim>\<open>np.exp(-decay * np.arange(n)[::-1])\<close>: the exponents run from \<open>n - 1\<close> down to 0.\<close>

definition decay_weights :: "real \<Rightarrow> nat \<Rightarrow> real list" where
  "decay_weights decay n = map (\<lambda>k. exp (- decay * real k)) (rev [0..<n])"

text \<open>\<^verbatim>\<open>weights / weights.sum()\<close>.\<close>

definition normalized :: "real list \<Rightarrow> real list" where
  "normalized weights = map (\<lambda>w. w / sum_list weights) weights"

text \<open>\<^verbatim>\<open>np.average(values, weights=weights)\<close> on two arrays of one length.\<close>

definition np_average :: "real list \<Rightarrow> real list \<Rightarrow> real" where
  "np_average vals weights = sum_list (map2 (*) vals weights) / sum_list weights"

text \<open>The values that enter the average: \<^verbatim>\<open>values.dropna().tail(n_recent)\<close>.\<close>

definition recent_values :: "real option list \<Rightarrow> int \<Rightarrow> real list" where
  "recent_values vals n_recent = tail n_recent (dropna vals)"

definition calculate_weighted_average :: "real option list \<Rightarrow> int \<Rightarrow> real \<Rightarrow> real" where
  "calculate_weighted_average vals n_recent decay =
     (if length vals = 0 then 0.0
      else
        (let vs = recent_values vals n_recent in
         if length vs = 0 then 0.0
         else
           (let weights = decay_weights decay (length vs);
                weights = normalized weights
            in np_average vs weights)))"

subsection \<open>\<^verbatim>\<open>calculate_statistical_prediction\<close>\<close>

text \<open>The numeric columns of the game log, by name, as \<^verbatim>\<open>game_log[stat_type]\<close> finds them.\<close>

definition game_log_columns :: "(string \<times> (game_log_entry \<Rightarrow> real)) list" where
  "game_log_columns =
     [(''points'', gl_points), (''rebounds'', gl_rebounds), (''assists'', gl_assists),
      (''steals'', gl_steals), (''blocks'', gl_blocks)]"

text \<open>
  The dictionary returned for a forecast. \<open>sp_opponent_defense\<close> is \<open>None\<close> for the empty
  dictionary; the default teammate dictionary has no star counts, written 0 here.
\<close>

record stat_pred =
  sp_prediction :: real
  sp_confidence :: confidence
  sp_baseline :: real
  sp_season_avg :: real
  sp_recent_5 :: real
  sp_trend_adj :: real
  sp_games_used :: nat
  sp_usage_info :: usage_info
  sp_opponent_defense :: "opponent_defense option"
  sp_teammate_context :: teammate_context
  sp_opponent_adj :: real
  sp_teammate_boost :: real

text \<open>The dictionary returned when the history is too short.\<close>

record error_dict =
  ed_prediction :: "real option"
  ed_confidence :: confidence
  ed_error :: string

datatype stat_result = Insufficient error_dict | StatPrediction (forecast: stat_pred)

text \<open>
  The query for the player's row of the target game, joined with the game's team box
  score: away team, home team, player's team; at most one row.
\<close>

definition opponent_query :: "database \<Rightarrow> string \<Rightarrow> string \<Rightarrow> (string \<times> string \<times> string) list" where
  "opponent_query db game_id athlete_id =
     take 1
       [(tb_away_team_id tb, tb_home_team_id tb, pb_team_id pb).
          pb \<leftarrow> player_boxscores db, tb \<leftarrow> team_boxscores db,
          pb_game_id pb = tb_game_id tb,
          pb_game_id pb = game_id,
          pb_athlete_id pb = athlete_id]"

text \<open>
  Confidence from the coefficient of variation; a coefficient without a value (a NaN
  deviation) compares false.
\<close>

definition consistency_confidence :: "real list \<Rightarrow> real \<Rightarrow> confidence" where
  "consistency_confidence stat_values baseline =
     (let std_dev = std (tail 10 stat_values);
          cv = (if baseline > 0 then Option.bind std_dev (\<lambda>s. float_div s baseline)
                else Some 1.0);
          below = (\<lambda>bound. case cv of None \<Rightarrow> False | Some c \<Rightarrow> c < bound)
      in if below 0.3 \<and> length stat_values \<ge> 10 then High
         else if below 0.5 \<and> length stat_values \<ge> 5 then Medium
         else Low)"

definition calculate_statistical_prediction ::
  "database \<Rightarrow> string \<Rightarrow> string \<Rightarrow> string \<Rightarrow> stat_type \<Rightarrow> error + stat_result" where
  "calculate_statistical_prediction db athlete_id game_id season stat_type =
     (let game_log = get_player_game_log db athlete_id season (Some game_id) in
      if length game_log < 3
      then Inr (Insufficient \<lparr>ed_prediction = None, ed_confidence = Low,
                  ed_error = ''Insufficient data (need at least 3 games)''\<rparr>)
      else
        (case map_of game_log_columns (stat_name stat_type) of
           None \<Rightarrow> Inl (KeyError (stat_name stat_type))
         | Some column \<Rightarrow>
             (let stat_values = map column game_log;
                  usage_info = get_usage_change game_log;
                  decay_rate = (if ui_increase_recent_weight usage_info then 0.05 else 0.15);
                  baseline = calculate_weighted_average (map Some stat_values) 10 decay_rate;
                  season_avg = mean stat_values;
                  recent_5 = (if length stat_values \<ge> 5 then mean (tail 5 stat_values)
                              else baseline);
                  trend_adj = (recent_5 - season_avg) * 0.25;
                  prediction = baseline + trend_adj;
                  opponent_result = opponent_query db game_id athlete_id
              in case (case opponent_result of
                         [] \<Rightarrow> Inr None
                       | (away_team, home_team, player_team) # _ \<Rightarrow>
                           (let opponent_team =
                                  (if player_team = away_team then home_team else away_team)
                            in map_sum id Some
                                 (get_opponent_recent_defense db opponent_team game_id season
                                    stat_type 10))) of
                   Inl e \<Rightarrow> Inl e
                 | Inr opponent_info \<Rightarrow>
                     (let opponent_adj =
                            (case opponent_info of None \<Rightarrow> 0.0 | Some d \<Rightarrow> od_adjustment d);
                          prediction = prediction + opponent_adj;
                          teammate_info =
                            (case opponent_result of
                               [] \<Rightarrow> \<lparr>tc_missing_stars = [], tc_adjustment = 0.0,
                                       tc_stars_playing = 0, tc_stars_total = 0\<rparr>
                             | (away_team, home_team, player_team) # _ \<Rightarrow>
                                 get_teammate_context db athlete_id game_id player_team season);
                          prediction =
                            (case opponent_result of
                               [] \<Rightarrow> prediction
                             | _ # _ \<Rightarrow>
                                 (let teammate_boost = 1.0 + tc_adjustment teammate_info
                                  in prediction * teammate_boost))
                      in Inr (StatPrediction
                           \<lparr>sp_prediction = prediction,
                            sp_confidence = consistency_confidence stat_values baseline,
                            sp_baseline = baseline,
                            sp_season_avg = season_avg,
                            sp_recent_5 = recent_5,
                            sp_trend_adj = trend_adj,
                            sp_games_used = length stat_values,
                            sp_usage_info = usage_info,
                            sp_opponent_defense = opponent_info,
                            sp_teammate_context = teammate_info,
                            sp_opponent_adj = round_1 opponent_adj,
                            sp_teammate_boost = round_1 (tc_adjustment teammate_info * 100)\<rparr>)))))"

subsection \<open>\<^verbatim>\<open>predict_stat\<close>\<close>

record prediction_result =
  pr_prediction :: real
  pr_vegas_line :: "real option"
  pr_stat_prediction :: real
  pr_edge :: "real option"
  pr_confidence :: confidence
  pr_recommendation :: recommendation
  pr_model_type :: model_type
  pr_games_used :: nat

datatype predict_output = ErrorResult error_dict | Prediction prediction_result

definition vegas_weight :: real where
  "vegas_weight = 0.65"

definition stat_weight :: real where
  "stat_weight = 0.35"

definition final_prediction :: "real \<Rightarrow> real \<Rightarrow> real" where
  "final_prediction vegas_line stat_pred_value =
     (vegas_line * vegas_weight) + (stat_pred_value * stat_weight)"

text \<open>
  \<^verbatim>\<open>abs(edge) / vegas_line if vegas_line > 0 else 0\<close>, as the code computes it: the
  division is the partial one, and \<open>None\<close> would be an infinite or NaN disagreement.
\<close>

definition disagreement_value :: "real \<Rightarrow> real \<Rightarrow> real option" where
  "disagreement_value vegas_line edge =
     (if vegas_line > 0 then float_div \<bar>edge\<bar> vegas_line else Some 0)"

text \<open>
  The number that the same expression denotes. The guard keeps the divisor positive, so
  the value above is always this number (\<open>disagreement_value_defined\<close> below).
\<close>

definition disagreement :: "real \<Rightarrow> real \<Rightarrow> real" where
  "disagreement vegas_line edge = (if vegas_line > 0 then \<bar>edge\<bar> / vegas_line else 0)"

text \<open>The three bands of the hybrid branch: confidence and recommendation.\<close>

definition hybrid_bands :: "real \<Rightarrow> real \<Rightarrow> bool \<Rightarrow> confidence \<times> recommendation" where
  "hybrid_bands disagr edge has_valid_odds =
     (if disagr < 0.10
      then (High,
            if has_valid_odds
            then (if \<bar>edge\<bar> < 0.5 then Pass else (if edge > 0 then Over else Under))
            else PassAltLine)
      else if disagr < 0.20
      then (Medium,
            if has_valid_odds
            then (if edge \<ge> 1.0 then Over else (if edge \<le> - 1.0 then Under else Pass))
            else PassAltLine)
      else (Low,
            if has_valid_odds
            then (if edge \<ge> 2.0 then Over else (if edge \<le> - 2.0 then Under else Pass))
            else Pass))"

text \<open>
  An infinite or NaN disagreement is below neither bound, so the chain of comparisons
  ends in its last branch.
\<close>

definition hybrid_bands_undefined :: "real \<Rightarrow> bool \<Rightarrow> confidence \<times> recommendation" where
  "hybrid_bands_undefined edge has_valid_odds =
     (Low,
      if has_valid_odds
      then (if edge \<ge> 2.0 then Over else (if edge \<le> - 2.0 then Under else Pass))
      else Pass)"

text \<open>The branch of \<^verbatim>\<open>predict_stat\<close> taken when a market line was found.\<close>

definition hybrid_prediction :: "vegas_data \<Rightarrow> stat_pred \<Rightarrow> prediction_result" where
  "hybrid_prediction vegas stat_prediction =
     (let stat_pred_value = sp_prediction stat_prediction;
          vegas_line = vd_line vegas;
          has_valid_odds = vd_has_odds vegas;
          final = final_prediction vegas_line stat_pred_value;
          edge = final - vegas_line;
          bands = (case disagreement_value vegas_line edge of
                     Some disagr \<Rightarrow> hybrid_bands disagr edge has_valid_odds
                   | None \<Rightarrow> hybrid_bands_undefined edge has_valid_odds)
      in \<lparr>pr_prediction = round_1 final,
          pr_vegas_line = Some vegas_line,
          pr_stat_prediction = round_1 stat_pred_value,
          pr_edge = Some (round_1 edge),
          pr_confidence = fst bands,
          pr_recommendation = snd bands,
          pr_model_type = VegasPlusHybrid,
          pr_games_used = sp_games_used stat_prediction\<rparr>)"

text \<open>The branch taken when there is no market line.\<close>

definition statistical_only :: "stat_pred \<Rightarrow> prediction_result" where
  "statistical_only stat_prediction =
     (let stat_pred_value = sp_prediction stat_prediction
      in \<lparr>pr_prediction = round_1 stat_pred_value,
          pr_vegas_line = None,
          pr_stat_prediction = round_1 stat_pred_value,
          pr_edge = None,
          pr_confidence = sp_confidence stat_prediction,
          pr_recommendation = NoLineAvailable,
          pr_model_type = EnhancedStatistical,
          pr_games_used = sp_games_used stat_prediction\<rparr>)"

text \<open>
  The season of the game; a game that is not among the events is taken to be of the
  season 2025.
\<close>

definition game_season :: "database \<Rightarrow> string \<Rightarrow> string" where
  "game_season db game_id =
     (let game_info = [be_season e. e \<leftarrow> basic_events db, be_event_id e = game_id]
      in case game_info of [] \<Rightarrow> ''2025'' | s # _ \<Rightarrow> s)"

text \<open>The market line is looked up first; a failure of its query ends the call.\<close>

definition predict_stat ::
  "database \<Rightarrow> string \<Rightarrow> string \<Rightarrow> stat_type \<Rightarrow> error + predict_output" where
  "predict_stat db athlete_id game_id stat_type =
     (let season = game_season db game_id in
      case get_prop_line db athlete_id game_id stat_type of
        Inl e \<Rightarrow> Inl e
      | Inr vegas \<Rightarrow>
          (case calculate_statistical_prediction db athlete_id game_id season stat_type of
             Inl e \<Rightarrow> Inl e
           | Inr (Insufficient d) \<Rightarrow> Inr (ErrorResult d)
           | Inr (StatPrediction stat_prediction) \<Rightarrow>
               Inr (Prediction
                 (case vegas of
                    Some v \<Rightarrow> hybrid_prediction v stat_prediction
                  | None \<Rightarrow> statistical_only stat_prediction))))"

section \<open>Sample data\<close>

text \<open>
  A forecast dictionary with a given statistical estimate, ten games used and no
  contextual adjustment; the hybrid branch reads the estimate and the game count only.
\<close>

definition plain_stat_pred :: "real \<Rightarrow> stat_pred" where
  "plain_stat_pred v =
     \<lparr>sp_prediction = v, sp_confidence = Medium, sp_baseline = v, sp_season_avg = v,
      sp_recent_5 = v, sp_trend_adj = 0, sp_games_used = 10, sp_usage_info = usage_neutral,
      sp_opponent_defense = None,
      sp_teammate_context = \<lparr>tc_missing_stars = [], tc_adjustment = 0.0,
        tc_stars_playing = 0, tc_stars_total = 0\<rparr>,
      sp_opponent_adj = 0, sp_teammate_boost = 0\<rparr>"

text \<open>A market quote with the given line; \<open>main\<close> says whether its odds are valid.\<close>

definition quote_at :: "real \<Rightarrow> bool \<Rightarrow> vegas_data" where
  "quote_at l main =
     \<lparr>vd_line = l, vd_has_odds = main, vd_over_odds = ''-110'', vd_under_odds = ''-110''\<rparr>"

text \<open>
  A box score row of the season 2024: game, athlete, team, the did-not-play flag and the
  points; a player who sat out has no minutes and no shot attempts.
\<close>

definition box :: "string \<Rightarrow> string \<Rightarrow> string \<Rightarrow> string \<Rightarrow> real \<Rightarrow> player_boxscore" where
  "box game_id athlete_id team_id did_not_play points =
     \<lparr>pb_game_id = game_id, pb_season = ''2024'', pb_athlete_id = athlete_id,
      pb_team_id = team_id, pb_points = points, pb_rebounds = 5, pb_assists = 4,
      pb_steals = 1, pb_blocks = 1, pb_athlete_didNotPlay = did_not_play,
      pb_athlete_starter = ''1'',
      pb_minutes = (if did_not_play = ''0'' then Some 30 else None),
      pb_fga = (if did_not_play = ''0'' then Some 12 else None)\<rparr>"

text \<open>A regular-season event of the season 2024 on the given day.\<close>

definition event :: "string \<Rightarrow> string \<Rightarrow> basic_event" where
  "event game_id day =
     \<lparr>be_event_id = game_id, be_season = ''2024'', be_date = day, be_event_season_type = 2\<rparr>"

definition team_game :: "string \<Rightarrow> string \<Rightarrow> string \<Rightarrow> team_boxscore" where
  "team_game game_id away home =
     \<lparr>tb_game_id = game_id, tb_away_team_id = away, tb_home_team_id = home,
      tb_home_score = 110, tb_away_score = 105, tb_home_totalRebounds = 44,
      tb_away_totalRebounds = 42, tb_home_assists = 25, tb_away_assists = 27\<rparr>"

definition named :: "string \<Rightarrow> string \<Rightarrow> athlete" where
  "named athlete_id display_name =
     \<lparr>a_athlete_id = athlete_id, a_athlete_display_name = display_name\<rparr>"

text \<open>
  Four meetings of the teams t1 and t2. Player p1 of t1 played all four; the teammates
  p2 and p3 played the first three, p2 sat out the fourth and p3 has no row for it.
\<close>

definition season_db :: database where
  "season_db =
     \<lparr>player_boxscores =
        [box ''g1'' ''p1'' ''t1'' ''0'' 20, box ''g1'' ''p2'' ''t1'' ''0'' 28,
         box ''g1'' ''p3'' ''t1'' ''0'' 18,
         box ''g2'' ''p1'' ''t1'' ''0'' 24, box ''g2'' ''p2'' ''t1'' ''0'' 30,
         box ''g2'' ''p3'' ''t1'' ''0'' 22,
         box ''g3'' ''p1'' ''t1'' ''0'' 22, box ''g3'' ''p2'' ''t1'' ''0'' 26,
         box ''g3'' ''p3'' ''t1'' ''0'' 20,
         box ''g4'' ''p1'' ''t1'' ''0'' 25, box ''g4'' ''p2'' ''t1'' ''1'' 0],
      basic_events =
        [event ''g1'' ''2024-11-01'', event ''g2'' ''2024-11-03'',
         event ''g3'' ''2024-11-05'', event ''g4'' ''2024-11-07''],
      team_boxscores =
        [team_game ''g1'' ''t1'' ''t2'', team_game ''g2'' ''t2'' ''t1'',
         team_game ''g3'' ''t1'' ''t2'', team_game ''g4'' ''t1'' ''t2''],
      player_props = [],
      athletes =
        [named ''p1'' ''Player One'', named ''p2'' ''Player Two'',
         named ''p3'' ''Player Three'']\<rparr>"

text \<open>Player p1 played the games g1 and g3 and sat out g2, which lies between them.\<close>

definition sat_out_db :: database where
  "sat_out_db =
     \<lparr>player_boxscores =
        [box ''g1'' ''p1'' ''t1'' ''0'' 20, box ''g2'' ''p1'' ''t1'' ''1'' 0,
         box ''g3'' ''p1'' ''t1'' ''0'' 22],
      basic_events =
        [event ''g1'' ''2024-11-01'', event ''g2'' ''2024-11-03'',
         event ''g3'' ''2024-11-05''],
      team_boxscores = [],
      player_props = [],
      athletes = [named ''p1'' ''Player One'']\<rparr>"

text \<open>
  Two quotes for the points of p1 in g4: the main line 20.5 at -110/-110 and an
  alternate line 27.5 at +320/-450.
\<close>

definition quotes_db :: database where
  "quotes_db =
     \<lparr>player_boxscores = [],
      basic_events = [event ''g4'' ''2024-11-07''],
      team_boxscores = [],
      player_props =
        [\<lparr>pp_athlete_id = ''p1'', pp_game_id = ''g4'', pp_prop_type = ''Total Points'',
          pp_line = 20.5, pp_over_odds = Some ''-110'', pp_under_odds = Some ''-110''\<rparr>,
         \<lparr>pp_athlete_id = ''p1'', pp_game_id = ''g4'', pp_prop_type = ''Total Points'',
          pp_line = 27.5, pp_over_odds = Some ''+320'', pp_under_odds = Some ''-450''\<rparr>],
      athletes = [named ''p1'' ''Player One'']\<rparr>"

text \<open>
  Player p2 has played a single game for t1, with 30 points, before the game g2, and
  has no row for g2.
\<close>

definition one_game_db :: database where
  "one_game_db =
     \<lparr>player_boxscores =
        [box ''g1'' ''p1'' ''t1'' ''0'' 20, box ''g1'' ''p2'' ''t1'' ''0'' 30,
         box ''g2'' ''p1'' ''t1'' ''0'' 25],
      basic_events = [event ''g1'' ''2024-11-01'', event ''g2'' ''2024-11-03''],
      team_boxscores = [team_game ''g1'' ''t1'' ''t2'', team_game ''g2'' ''t2'' ''t1''],
      player_props = [],
      athletes = [named ''p1'' ''Player One'', named ''p2'' ''Player Two'']\<rparr>"

section \<open>A reference reading of the star query\<close>

text \<open>
  The definitions of this section are not part of the engine. They say directly, row by
  row, which teammates the tables make stars; the engine's query is compared with them
  below.
\<close>

text \<open>
  A box score row counts towards a season-to-date average before the target game when
  the player took part and the row's game is a regular-season event dated before the
  target game.
\<close>

definition played_before :: "database \<Rightarrow> string \<Rightarrow> player_boxscore \<Rightarrow> bool" where
  "played_before db game_id pb =
     (pb_athlete_didNotPlay pb = ''0''
      \<and> (case (event_date db game_id,
                find (\<lambda>e. be_event_id e = pb_game_id pb) (basic_events db)) of
            (Some target_date, Some e) \<Rightarrow> be_event_season_type e = 2 \<and> be_date e < target_date
          | _ \<Rightarrow> False))"

text \<open>
  The points an athlete scored for the team in the games of the season that count
  before the target game.
\<close>

definition season_points :: "database \<Rightarrow> string \<Rightarrow> string \<Rightarrow> string \<Rightarrow> string \<Rightarrow> real list" where
  "season_points db game_id team_id season a =
     [pb_points pb.
        pb \<leftarrow> player_boxscores db,
        pb_athlete_id pb = a,
        pb_team_id pb = team_id,
        pb_season pb = season,
        played_before db game_id pb]"

text \<open>
  What one box score row contributes to the rows of the star query when athlete ids and
  event ids are unique: at most one row.
\<close>

definition teammate_row ::
  "database \<Rightarrow> string \<Rightarrow> string \<Rightarrow> string \<Rightarrow> string \<Rightarrow> player_boxscore
     \<Rightarrow> (string \<times> string \<times> real) list" where
  "teammate_row db athlete_id game_id team_id season pb =
     (case find (\<lambda>a. a_athlete_id a = pb_athlete_id pb) (athletes db) of
        None \<Rightarrow> []
      | Some a \<Rightarrow>
          if pb_team_id pb = team_id \<and> pb_season pb = season
             \<and> pb_athlete_id pb \<noteq> athlete_id \<and> played_before db game_id pb
          then [(pb_athlete_id pb, a_athlete_display_name a, pb_points pb)]
          else [])"

text \<open>
  The star teammates as the tables give them: the athletes other than the target player
  with a row in the athletes table, at least one game that counts, and a mean of more
  than 15 points over the games that count.
\<close>

definition star_teammates :: "database \<Rightarrow> string \<Rightarrow> string \<Rightarrow> string \<Rightarrow> string \<Rightarrow> string set" where
  "star_teammates db athlete_id game_id team_id season =
     {i. i \<noteq> athlete_id
         \<and> i \<in> set (map a_athlete_id (athletes db))
         \<and> season_points db game_id team_id season i \<noteq> []
         \<and> 15 < mean (season_points db game_id team_id season i)}"

text \<open>The athlete has a row for the game with the team and took part.\<close>

definition plays_in :: "database \<Rightarrow> string \<Rightarrow> string \<Rightarrow> string \<Rightarrow> bool" where
  "plays_in db game_id team_id i =
     (\<exists>pb \<in> set (player_boxscores db).
        pb_game_id pb = game_id \<and> pb_team_id pb = team_id \<and> pb_athlete_id pb = i
        \<and> pb_athlete_didNotPlay pb = ''0'')"

section \<open>The hybrid branch\<close>

lemma predict_stat_hybrid:
  assumes "get_prop_line db athlete_id game_id stat_type = Inr (Some v)"
    and "calculate_statistical_prediction db athlete_id game_id (game_season db game_id)
           stat_type = Inr (StatPrediction sp)"
  shows "predict_stat db athlete_id game_id stat_type = Inr (Prediction (hybrid_prediction v sp))"
  using assms by (simp add: predict_stat_def)

lemma disagreement_value_defined:
  "disagreement_value vegas_line edge = Some (disagreement vegas_line edge)"
  by (simp add: disagreement_value_def disagreement_def float_div_def)

lemma hybrid_prediction_bands:
  "(pr_confidence (hybrid_prediction v sp), pr_recommendation (hybrid_prediction v sp))
     = hybrid_bands
         (disagreement (vd_line v)
            (final_prediction (vd_line v) (sp_prediction sp) - vd_line v))
         (final_prediction (vd_line v) (sp_prediction sp) - vd_line v) (vd_has_odds v)"
  by (simp add: hybrid_prediction_def Let_def disagreement_value_defined)




text \<open>
  C7. In the hybrid branch the final prediction is \<open>line * 0.65 + estimate * 0.35\<close> and
  the edge is the final prediction minus the line; the result carries both rounded to
  one decimal, and the band is chosen from the unrounded edge. For a main line of 20.0
  and an estimate of 22.0 the result has prediction 20.7, edge 0.7, confidence High and
  recommendation Over.
\<close>

theorem hybrid_blend_arithmetic:
  "pr_prediction (hybrid_prediction v sp) = round_1 (vd_line v * 0.65 + sp_prediction sp * 0.35)
   \<and> pr_edge (hybrid_prediction v sp)
       = Some (round_1 ((vd_line v * 0.65 + sp_prediction sp * 0.35) - vd_line v))
   \<and> (pr_confidence (hybrid_prediction v sp), pr_recommendation (hybrid_prediction v sp))
       = hybrid_bands
           (disagreement (vd_line v) ((vd_line v * 0.65 + sp_prediction sp * 0.35) - vd_line v))
           ((vd_line v * 0.65 + sp_prediction sp * 0.35) - vd_line v) (vd_has_odds v)
   \<and> disagreement 20.0 (20.0 * 0.65 + 22.0 * 0.35 - 20.0) = 0.035
   \<and> hybrid_prediction (quote_at 20.0 True) (plain_stat_pred 22.0)
       = \<lparr>pr_prediction = 20.7, pr_vegas_line = Some 20.0, pr_stat_prediction = 22.0,
          pr_edge = Some 0.7, pr_confidence = High, pr_recommendation = Over,
          pr_model_type = VegasPlusHybrid, pr_games_used = 10\<rparr>"
proof -
  have general:
    "pr_prediction (hybrid_prediction v sp)
       = round_1 (vd_line v * 0.65 + sp_prediction sp * 0.35)"
    "pr_edge (hybrid_prediction v sp)
       = Some (round_1 ((vd_line v * 0.65 + sp_prediction sp * 0.35) - vd_line v))"
    "(pr_confidence (hybrid_prediction v sp), pr_recommendation (hybrid_prediction v sp))
       = hybrid_bands
           (disagreement (vd_line v) ((vd_line v * 0.65 + sp_prediction sp * 0.35) - vd_line v))
           ((vd_line v * 0.65 + sp_prediction sp * 0.35) - vd_line v) (vd_has_odds v)"
    by (simp_all add: hybrid_prediction_def Let_def final_prediction_def vegas_weight_def
        stat_weight_def disagreement_value_defined)
  have ratio: "disagreement 20.0 (20.0 * 0.65 + 22.0 * 0.35 - 20.0) = 0.035"
    by (simp add: disagreement_def)
  have example:
    "hybrid_prediction (quote_at 20.0 True) (plain_stat_pred 22.0)
       = \<lparr>pr_prediction = 20.7, pr_vegas_line = Some 20.0, pr_stat_prediction = 22.0,
          pr_edge = Some 0.7, pr_confidence = High, pr_recommendation = Over,
          pr_model_type = VegasPlusHybrid, pr_games_used = 10\<rparr>"
    by (simp add: hybrid_prediction_def Let_def final_prediction_def vegas_weight_def
        stat_weight_def disagreement_value_def float_div_def hybrid_bands_def round_1_def
        rint_def quote_at_def plain_stat_pred_def)
  from general ratio example show ?thesis by blast
qed

text \<open>
  C8. The bands of the hybrid branch, with \<open>d\<close> the disagreement and \<open>edge\<close> the
  unrounded edge: \<open>d < 0.10\<close> gives High, with Over or Under (by the sign of the edge)
  from \<open>|edge| \<ge> 0.5\<close>; \<open>0.10 \<le> d < 0.20\<close> gives Medium, from \<open>|edge| \<ge> 1.0\<close>;
  \<open>d \<ge> 0.20\<close> gives Low, from \<open>|edge| \<ge> 2.0\<close>; below the threshold the
  recommendation is Pass. When the line is not a main line, High and Medium recommend
  PassAltLine and Low recommends plain Pass.
\<close>

theorem hybrid_band_table:
  "(let edge = final_prediction (vd_line v) (sp_prediction sp) - vd_line v;
        d = disagreement (vd_line v) edge;
        r = hybrid_prediction v sp;
        sided = (\<lambda>t. if \<bar>edge\<bar> \<ge> t then (if edge > 0 then Over else Under) else Pass)
    in (d < 0.10 \<longrightarrow>
          pr_confidence r = High
          \<and> pr_recommendation r = (if vd_has_odds v then sided 0.5 else PassAltLine))
     \<and> (0.10 \<le> d \<and> d < 0.20 \<longrightarrow>
          pr_confidence r = Medium
          \<and> pr_recommendation r = (if vd_has_odds v then sided 1.0 else PassAltLine))
     \<and> (0.20 \<le> d \<longrightarrow>
          pr_confidence r = Low
          \<and> pr_recommendation r = (if vd_has_odds v then sided 2.0 else Pass)))"
  by (simp add: Let_def hybrid_prediction_def hybrid_bands_def disagreement_value_defined)
    linarith

theorem hybrid_band_table_witness:
  "disagreement 20 (final_prediction 20 22 - 20) < 0.10
   \<and> pr_confidence (hybrid_prediction (quote_at 20 True) (plain_stat_pred 22)) = High
   \<and> pr_recommendation (hybrid_prediction (quote_at 20 True) (plain_stat_pred 22)) = Over
   \<and> pr_recommendation (hybrid_prediction (quote_at 20 True) (plain_stat_pred 21)) = Pass
   \<and> pr_recommendation (hybrid_prediction (quote_at 20 False) (plain_stat_pred 22)) = PassAltLine
   \<and> 0.10 \<le> disagreement 20 (final_prediction 20 12 - 20)
   \<and> disagreement 20 (final_prediction 20 12 - 20) < 0.20
   \<and> pr_confidence (hybrid_prediction (quote_at 20 True) (plain_stat_pred 12)) = Medium
   \<and> pr_recommendation (hybrid_prediction (quote_at 20 True) (plain_stat_pred 12)) = Under
   \<and> pr_recommendation (hybrid_prediction (quote_at 20 False) (plain_stat_pred 12)) = PassAltLine
   \<and> 0.20 \<le> disagreement 20 (final_prediction 20 34 - 20)
   \<and> pr_confidence (hybrid_prediction (quote_at 20 True) (plain_stat_pred 34)) = Low
   \<and> pr_recommendation (hybrid_prediction (quote_at 20 True) (plain_stat_pred 34)) = Over
   \<and> pr_recommendation (hybrid_prediction (quote_at 20 False) (plain_stat_pred 34)) = Pass"
proof -
  have high: "disagreement 20 (final_prediction 20 22 - 20) < 0.10"
    and high': "disagreement 20 (final_prediction 20 21 - 20) < 0.10"
    and medium: "0.10 \<le> disagreement 20 (final_prediction 20 12 - 20)"
      "disagreement 20 (final_prediction 20 12 - 20) < 0.20"
    and low: "0.20 \<le> disagreement 20 (final_prediction 20 34 - 20)"
    by (simp_all add: disagreement_def final_prediction_def vegas_weight_def stat_weight_def)
  have edges: "final_prediction 20 22 - 20 = 0.7" "final_prediction 20 21 - 20 = 0.35"
    "final_prediction 20 12 - 20 = - 2.8" "final_prediction 20 34 - 20 = 4.9"
    by (simp_all add: final_prediction_def vegas_weight_def stat_weight_def)
  have sel: "\<And>l m. vd_line (quote_at l m) = l" "\<And>l m. vd_has_odds (quote_at l m) = m"
    "\<And>x. sp_prediction (plain_stat_pred x) = x"
    by (simp_all add: quote_at_def plain_stat_pred_def)
  from high high' medium low
    hybrid_band_table [of "quote_at 20 True" "plain_stat_pred 22"]
    hybrid_band_table [of "quote_at 20 True" "plain_stat_pred 21"]
    hybrid_band_table [of "quote_at 20 False" "plain_stat_pred 22"]
    hybrid_band_table [of "quote_at 20 True" "plain_stat_pred 12"]
    hybrid_band_table [of "quote_at 20 False" "plain_stat_pred 12"]
    hybrid_band_table [of "quote_at 20 True" "plain_stat_pred 34"]
    hybrid_band_table [of "quote_at 20 False" "plain_stat_pred 34"]
  show ?thesis
    by (simp add: Let_def sel edges)
qed

section \<open>The weighted average\<close>

lemma dropna_empty_iff: "dropna xs = [] \<longleftrightarrow> (\<forall>x \<in> set xs. x = None)"
  by (induction xs) (auto simp: dropna_def split: option.splits)

lemma recent_values_10: "recent_values vals 10 = drop (length (dropna vals) - 10) (dropna vals)"
  by (simp add: recent_values_def tail_def)

lemma recent_values_10_nonempty: "dropna vals \<noteq> [] \<Longrightarrow> recent_values vals 10 \<noteq> []"
  by (cases "dropna vals") (simp_all add: recent_values_10)

lemma length_decay_weights: "length (decay_weights decay n) = n"
  by (simp add: decay_weights_def)

lemma decay_weights_pos: "x \<in> set (decay_weights decay n) \<Longrightarrow> 0 < x"
  by (auto simp: decay_weights_def)

lemma sum_list_positive:
  fixes xs :: "real list"
  assumes "xs \<noteq> []" and "\<And>x. x \<in> set xs \<Longrightarrow> 0 < x"
  shows "0 < sum_list xs"
  using assms
proof (induction xs)
  case Nil
  then show ?case by simp
next
  case (Cons a xs)
  have "0 < a" using Cons.prems(2) by simp
  moreover have "0 \<le> sum_list xs"
    by (rule sum_list_nonneg) (use Cons.prems(2) in \<open>auto intro: less_imp_le\<close>)
  ultimately show ?case by simp
qed

lemma sum_decay_weights_pos: "0 < n \<Longrightarrow> 0 < sum_list (decay_weights decay n)"
  by (rule sum_list_positive) (auto simp: decay_weights_def)

lemma sum_list_divide_const:
  fixes xs :: "real list"
  shows "sum_list (map (\<lambda>w. w / c) xs) = sum_list xs / c"
  by (induction xs) (simp_all add: add_divide_distrib)

lemma sum_normalized: "sum_list ws \<noteq> 0 \<Longrightarrow> sum_list (normalized ws) = 1"
  by (simp add: normalized_def sum_list_divide_const)

lemma length_normalized: "length (normalized ws) = length ws"
  by (simp add: normalized_def)

lemma normalized_pos:
  assumes "0 < sum_list ws" and "\<And>w. w \<in> set ws \<Longrightarrow> 0 < w" and "x \<in> set (normalized ws)"
  shows "0 < x"
  using assms by (auto simp: normalized_def)

lemma weighted_sum_upper:
  fixes vs ws :: "real list"
  assumes "length vs = length ws" and "\<And>v. v \<in> set vs \<Longrightarrow> v \<le> hi"
    and "\<And>w. w \<in> set ws \<Longrightarrow> 0 \<le> w"
  shows "sum_list (map2 (*) vs ws) \<le> hi * sum_list ws"
  using assms
proof (induction vs ws rule: list_induct2)
  case Nil
  then show ?case by simp
next
  case (Cons v vs w ws)
  have "v * w \<le> hi * w"
    by (rule mult_right_mono) (use Cons.prems in auto)
  moreover have "sum_list (map2 (*) vs ws) \<le> hi * sum_list ws"
    by (rule Cons.IH) (use Cons.prems in auto)
  ultimately show ?case by (simp add: distrib_left)
qed

lemma weighted_sum_lower:
  fixes vs ws :: "real list"
  assumes "length vs = length ws" and "\<And>v. v \<in> set vs \<Longrightarrow> lo \<le> v"
    and "\<And>w. w \<in> set ws \<Longrightarrow> 0 \<le> w"
  shows "lo * sum_list ws \<le> sum_list (map2 (*) vs ws)"
  using assms
proof (induction vs ws rule: list_induct2)
  case Nil
  then show ?case by simp
next
  case (Cons v vs w ws)
  have "lo * w \<le> v * w"
    by (rule mult_right_mono) (use Cons.prems in auto)
  moreover have "lo * sum_list ws \<le> sum_list (map2 (*) vs ws)"
    by (rule Cons.IH) (use Cons.prems in auto)
  ultimately show ?case by (simp add: distrib_left)
qed

lemma decay_weights_nth:
  "i < n \<Longrightarrow> decay_weights decay n ! i = exp (- decay * real (n - 1 - i))"
  by (simp add: decay_weights_def rev_nth)

lemma normalized_nth: "i < length ws \<Longrightarrow> normalized ws ! i = ws ! i / sum_list ws"
  by (simp add: normalized_def)

lemma latest_weight_greatest:
  assumes "0 < decay" and "i + 1 < n"
  shows "normalized (decay_weights decay n) ! i < normalized (decay_weights decay n) ! (n - 1)"
proof -
  define k where "k = n - 1 - i"
  have n: "0 < n" "i < n" "n - 1 < n" using assms(2) by simp_all
  have s: "0 < sum_list (decay_weights decay n)"
    by (rule sum_decay_weights_pos) (rule n(1))
  have "0 < real k" using assms(2) by (simp add: k_def)
  with assms(1) have "0 < decay * real k"
    by (rule mult_pos_pos)
  then have "- decay * real k < 0"
    by (simp only: mult_minus_left neg_less_0_iff_less)
  then have small: "exp (- decay * real k) < 1"
    by (simp only: exp_less_one_iff)
  have "decay_weights decay n ! i = exp (- decay * real k)"
    using n(2) by (simp only: decay_weights_nth k_def)
  moreover have "decay_weights decay n ! (n - 1) = 1"
    using n(3) by (simp add: decay_weights_nth)
  ultimately have "decay_weights decay n ! i < decay_weights decay n ! (n - 1)"
    using small by simp
  then show ?thesis
    using n s by (simp add: normalized_nth length_decay_weights divide_strict_right_mono)
qed

lemma weighted_average_of_recent:
  assumes "dropna vals \<noteq> []"
  shows "calculate_weighted_average vals 10 decay
    = sum_list (map2 (*) (recent_values vals 10)
        (normalized (decay_weights decay (length (recent_values vals 10)))))"
proof -
  have ne: "recent_values vals 10 \<noteq> []"
    by (rule recent_values_10_nonempty) (rule assms)
  have vals: "vals \<noteq> []" using assms by (auto simp: dropna_def)
  have "0 < sum_list (decay_weights decay (length (recent_values vals 10)))"
    by (rule sum_decay_weights_pos) (use ne in simp)
  then have "sum_list (normalized (decay_weights decay (length (recent_values vals 10)))) = 1"
    by (intro sum_normalized) simp
  then show ?thesis
    using ne vals by (simp add: calculate_weighted_average_def Let_def np_average_def)
qed

text \<open>
  C10. \<^verbatim>\<open>calculate_weighted_average\<close> with the default ten recent games: for a series
  that is empty or holds missing values only, the result is exactly 0. Otherwise the
  values that enter are the last (at most ten) values that are not missing, the
  normalized weights are positive and sum to 1, the weight of the latest value is
  strictly the greatest (for a positive decay rate, as both rates of the engine are), the
  result is the sum of the values times their weights, and it lies between the least
  and the greatest of those values.
\<close>

theorem calculate_weighted_average_convex:
  "((\<forall>x \<in> set vals. x = None) \<longrightarrow> calculate_weighted_average vals 10 decay = 0)
   \<and> (\<not> (\<forall>x \<in> set vals. x = None) \<longrightarrow>
       (let vs = recent_values vals 10;
            w = normalized (decay_weights decay (length vs))
        in vs = drop (length (dropna vals) - 10) (dropna vals)
           \<and> vs \<noteq> [] \<and> length vs \<le> 10 \<and> length w = length vs
           \<and> (\<forall>x \<in> set w. 0 < x)
           \<and> sum_list w = 1
           \<and> (0 < decay \<longrightarrow> (\<forall>i. i + 1 < length w \<longrightarrow> w ! i < w ! (length w - 1)))
           \<and> calculate_weighted_average vals 10 decay = sum_list (map2 (*) vs w)
           \<and> Min (set vs) \<le> calculate_weighted_average vals 10 decay
           \<and> calculate_weighted_average vals 10 decay \<le> Max (set vs)))"
proof (intro conjI impI)
  assume "\<forall>x \<in> set vals. x = None"
  then have "dropna vals = []" by (simp add: dropna_empty_iff)
  then show "calculate_weighted_average vals 10 decay = 0"
    by (simp add: calculate_weighted_average_def recent_values_def tail_def)
next
  assume "\<not> (\<forall>x \<in> set vals. x = None)"
  then have some: "dropna vals \<noteq> []" by (simp add: dropna_empty_iff)
  define vs where "vs = recent_values vals 10"
  define w where "w = normalized (decay_weights decay (length vs))"
  have vs_eq: "vs = drop (length (dropna vals) - 10) (dropna vals)"
    by (simp add: vs_def recent_values_10)
  have ne: "vs \<noteq> []"
    unfolding vs_def by (rule recent_values_10_nonempty) (rule some)
  have len: "length vs \<le> 10"
    by (simp add: vs_eq)
  have lw: "length w = length vs"
    by (simp add: w_def length_normalized length_decay_weights)
  have s: "0 < sum_list (decay_weights decay (length vs))"
    by (rule sum_decay_weights_pos) (use ne in simp)
  have pos: "\<forall>x \<in> set w. 0 < x"
    unfolding w_def using s by (blast intro: normalized_pos decay_weights_pos)
  have one: "sum_list w = 1"
    unfolding w_def using s by (intro sum_normalized) simp
  have latest: "0 < decay \<longrightarrow> (\<forall>i. i + 1 < length w \<longrightarrow> w ! i < w ! (length w - 1))"
    unfolding lw unfolding w_def by (blast intro: latest_weight_greatest)
  have avg: "calculate_weighted_average vals 10 decay = sum_list (map2 (*) vs w)"
    unfolding vs_def w_def vs_def by (rule weighted_average_of_recent) (rule some)
  have nonneg: "\<And>x. x \<in> set w \<Longrightarrow> 0 \<le> x"
    using pos by (auto intro: less_imp_le)
  have "Min (set vs) * sum_list w \<le> sum_list (map2 (*) vs w)"
    by (rule weighted_sum_lower) (simp_all add: lw nonneg)
  then have lower: "Min (set vs) \<le> calculate_weighted_average vals 10 decay"
    by (simp add: avg one)
  have "sum_list (map2 (*) vs w) \<le> Max (set vs) * sum_list w"
    by (rule weighted_sum_upper) (simp_all add: lw nonneg)
  then have upper: "calculate_weighted_average vals 10 decay \<le> Max (set vs)"
    by (simp add: avg one)
  from vs_eq ne len lw pos one latest avg lower upper
  show "let vs = recent_values vals 10;
            w = normalized (decay_weights decay (length vs))
        in vs = drop (length (dropna vals) - 10) (dropna vals)
           \<and> vs \<noteq> [] \<and> length vs \<le> 10 \<and> length w = length vs
           \<and> (\<forall>x \<in> set w. 0 < x)
           \<and> sum_list w = 1
           \<and> (0 < decay \<longrightarrow> (\<forall>i. i + 1 < length w \<longrightarrow> w ! i < w ! (length w - 1)))
           \<and> calculate_weighted_average vals 10 decay = sum_list (map2 (*) vs w)
           \<and> Min (set vs) \<le> calculate_weighted_average vals 10 decay
           \<and> calculate_weighted_average vals 10 decay \<le> Max (set vs)"
    unfolding Let_def vs_def [symmetric] w_def [symmetric] by blast
qed

theorem calculate_weighted_average_convex_witness:
  "dropna [Some 10, None, Some 20, Some (30::real)] = [10, 20, 30]
   \<and> (0::real) < 0.15
   \<and> recent_values [Some 10, None, Some 20, Some 30] 10 = [10, 20, 30]
   \<and> sum_list (normalized (decay_weights 0.15 3)) = 1
   \<and> normalized (decay_weights 0.15 3) ! 0 < normalized (decay_weights 0.15 3) ! 2
   \<and> 10 \<le> calculate_weighted_average [Some 10, None, Some 20, Some 30] 10 0.15
   \<and> calculate_weighted_average [Some 10, None, Some 20, Some 30] 10 0.15 \<le> 30
   \<and> dropna [None, None :: real option] = []
   \<and> calculate_weighted_average [None, None] 10 0.15 = 0"
proof -
  let ?vals = "[Some 10, None, Some 20, Some (30::real)]"
  have some: "\<not> (\<forall>x \<in> set ?vals. x = None)"
    by simp
  have rate: "(0::real) < 0.15"
    by simp
  have rv: "recent_values ?vals 10 = [10, 20, 30]"
    by (simp add: recent_values_def tail_def dropna_def)
  have none: "\<forall>x \<in> set [None, None :: real option]. x = None"
    by simp
  from calculate_weighted_average_convex [of ?vals "0.15"] some
  have filled:
    "let vs = recent_values ?vals 10;
         w = normalized (decay_weights 0.15 (length vs))
     in vs = drop (length (dropna ?vals) - 10) (dropna ?vals)
        \<and> vs \<noteq> [] \<and> length vs \<le> 10 \<and> length w = length vs
        \<and> (\<forall>x \<in> set w. 0 < x)
        \<and> sum_list w = 1
        \<and> ((0::real) < 0.15 \<longrightarrow> (\<forall>i. i + 1 < length w \<longrightarrow> w ! i < w ! (length w - 1)))
        \<and> calculate_weighted_average ?vals 10 0.15 = sum_list (map2 (*) vs w)
        \<and> Min (set vs) \<le> calculate_weighted_average ?vals 10 0.15
        \<and> calculate_weighted_average ?vals 10 0.15 \<le> Max (set vs)"
    by blast
  have len3: "length [10, 20, 30 :: real] = 3"
    by simp
  note at_vals = filled [unfolded Let_def rv len3]
  have one: "sum_list (normalized (decay_weights 0.15 3)) = 1"
    using at_vals by blast
  have "\<forall>i. i + 1 < length (normalized (decay_weights 0.15 3)) \<longrightarrow>
          normalized (decay_weights 0.15 3) ! i
          < normalized (decay_weights 0.15 3) ! (length (normalized (decay_weights 0.15 3)) - 1)"
    using at_vals rate by blast
  then have latest:
    "normalized (decay_weights 0.15 3) ! 0 < normalized (decay_weights 0.15 3) ! 2"
    by (simp add: length_normalized length_decay_weights)
  have "Min (set [10, 20, 30 :: real]) \<le> calculate_weighted_average ?vals 10 0.15"
    and "calculate_weighted_average ?vals 10 0.15 \<le> Max (set [10, 20, 30 :: real])"
    using at_vals by blast+
  then have lower: "10 \<le> calculate_weighted_average ?vals 10 0.15"
    and upper: "calculate_weighted_average ?vals 10 0.15 \<le> 30"
    by simp_all
  from calculate_weighted_average_convex [of "[None, None]" "0.15"] none
  have zero: "calculate_weighted_average [None, None] 10 0.15 = 0"
    by blast
  have kept: "dropna ?vals = [10, 20, 30]"
    and dropped: "dropna [None, None :: real option] = []"
    by (simp_all add: dropna_def)
  from kept rate rv one latest lower upper dropped zero show ?thesis
    by blast
qed

section \<open>The game log\<close>

lemma game_log_untruncated:
  "g \<notin> set (map gl_game_id (game_log_query db athlete_id season)) \<Longrightarrow>
     get_player_game_log db athlete_id season (Some g) = game_log_query db athlete_id season"
  by (simp add: get_player_game_log_def)

lemma game_log_truncated:
  "g \<noteq> [] \<Longrightarrow> g \<in> set (map gl_game_id (game_log_query db athlete_id season)) \<Longrightarrow>
     get_player_game_log db athlete_id season (Some g)
       = takeWhile (\<lambda>r. gl_game_id r \<noteq> g) (game_log_query db athlete_id season)"
  by (simp add: get_player_game_log_def first_index_def Let_def takeWhile_eq_take [symmetric])

text \<open>
  C3 fails on the code. Player p1 sat out the game g2 of 3 November, so g2 is not in the
  frame and nothing is cut off: the log asked for "before g2" holds the game g3 of
  5 November.
\<close>

theorem game_log_keeps_later_game:
  "event_date sat_out_db ''g2'' = Some ''2024-11-03''
   \<and> map gl_game_id (get_player_game_log sat_out_db ''p1'' ''2024'' (Some ''g2'')) = [''g1'', ''g3'']
   \<and> map gl_date (get_player_game_log sat_out_db ''p1'' ''2024'' (Some ''g2''))
       = [''2024-11-01'', ''2024-11-05'']
   \<and> (''2024-11-03'' :: string) < ''2024-11-05''"
  by (simp add: get_player_game_log_def game_log_query_def sat_out_db_def box_def event_def
      game_log_select_def event_date_def)

section \<open>The market line\<close>

text \<open>
  C4 fails on the code. The query orders by the distance of the over odds from +110,
  not from -110: the quote at -110 has the key 220, the alternate quote at +320 has the
  key 210 and is the one selected.
\<close>

theorem prop_line_prefers_alternate_quote:
  "prop_order_key (20.5, ''-110'', ''-110'') = Some 220
   \<and> prop_order_key (27.5, ''+320'', ''-450'') = Some 210
   \<and> get_prop_line quotes_db ''p1'' ''g4'' Points
       = Inr (Some \<lparr>vd_line = 27.5, vd_has_odds = False, vd_over_odds = ''+320'',
                    vd_under_odds = ''-450''\<rparr>)"
  by (simp add: get_prop_line_def prop_type_mapping_def prop_rows_def quotes_db_def
      prop_order_key_def sql_cast_integer_def remove_plus_def ascii_space_def is_digit_def
      digits_value_def py_int_def strip_def Let_def)

section \<open>Failures of \<^verbatim>\<open>predict_stat\<close>\<close>

lemmas season_db_defs =
  season_db_def box_def event_def team_game_def named_def

lemmas statistical_defs =
  calculate_statistical_prediction_def get_player_game_log_def game_log_query_def
  game_log_select_def first_index_def game_log_columns_def opponent_query_def
  get_opponent_recent_defense_def defense_query_def event_date_def defense_select_def
  defense_columns_def league_averages_def sort_desc_def

lemmas market_line_defs =
  get_prop_line_def prop_type_mapping_def prop_rows_def

text \<open>
  C2 fails on the code. For blocks the frame of the opponent's games has no column
  \<^verbatim>\<open>blocks_allowed\<close>: with three or more opponent games \<^verbatim>\<open>predict_stat\<close> raises
  \<^verbatim>\<open>KeyError\<close> instead of returning a result.
\<close>

theorem predict_stat_blocks_raises:
  "predict_stat season_db ''p1'' ''g4'' Blocks = Inl (KeyError ''blocks_allowed'')"
  by (simp add: predict_stat_def game_season_def market_line_defs statistical_defs
      season_db_defs Let_def)

text \<open>
  C6 fails on the code for steals and blocks. Player p1 has exactly three games before
  g4, and \<^verbatim>\<open>predict_stat\<close> for steals raises \<^verbatim>\<open>KeyError\<close> instead of producing a
  prediction.
\<close>

theorem predict_stat_three_games_steals_raises:
  "length (get_player_game_log season_db ''p1'' (game_season season_db ''g4'') (Some ''g4'')) = 3
   \<and> predict_stat season_db ''p1'' ''g4'' Steals = Inl (KeyError ''steals_allowed'')"
  by (simp add: predict_stat_def game_season_def market_line_defs statistical_defs
      season_db_defs Let_def)

section \<open>The statistical estimate\<close>

lemma teammate_adjustment:
  "tc_adjustment (get_teammate_context db athlete_id game_id team_id season)
     = real (length (tc_missing_stars (get_teammate_context db athlete_id game_id team_id season)))
       * 0.125"
  by (simp add: get_teammate_context_def Let_def)

lemma opponent_defense_neutral:
  assumes "length (defense_query db opponent_team_id game_id season n) < 3"
  shows "get_opponent_recent_defense db opponent_team_id game_id season stat_type n
    = Inr \<lparr>od_adjustment = 0, od_opponent_avg = None, od_league_avg = None,
            od_games_analyzed = length (defense_query db opponent_team_id game_id season n)\<rparr>"
  using assms by (simp add: get_opponent_recent_defense_def Let_def)

lemma those_defined:
  "None \<notin> set ks \<Longrightarrow> \<exists>vs. those ks = Some vs"
proof (induction ks)
  case Nil
  then show ?case by simp
next
  case (Cons k ks)
  then obtain v vs where "k = Some v" "those ks = Some vs"
    by (cases k) auto
  then show ?case by simp
qed

lemma prop_line_returns:
  assumes "map_of prop_type_mapping (stat_name stat_type) = Some prop_type"
    and "None \<notin> set (map prop_order_key (prop_rows db athlete_id game_id prop_type))"
  shows "\<exists>vegas. get_prop_line db athlete_id game_id stat_type = Inr vegas"
proof -
  obtain keys
    where "those (map prop_order_key (prop_rows db athlete_id game_id prop_type)) = Some keys"
    using those_defined [OF assms(2)] by blast
  with assms(1) show ?thesis
    by (auto simp: get_prop_line_def Let_def split: list.splits)
qed

lemma predict_stat_insufficient:
  assumes "get_prop_line db athlete_id game_id stat_type = Inr vegas"
    and "length (get_player_game_log db athlete_id (game_season db game_id) (Some game_id)) < 3"
  shows "predict_stat db athlete_id game_id stat_type
    = Inr (ErrorResult \<lparr>ed_prediction = None, ed_confidence = Low,
             ed_error = ''Insufficient data (need at least 3 games)''\<rparr>)"
  using assms by (simp add: predict_stat_def calculate_statistical_prediction_def Let_def)

lemma defense_column_known:
  "stat_type \<in> {Points, Rebounds, Assists} \<Longrightarrow>
     \<exists>d. get_opponent_recent_defense db opponent_team_id game_id season stat_type n = Inr d"
  by (auto simp: get_opponent_recent_defense_def Let_def defense_columns_def)

lemma statistical_prediction_three_games:
  assumes "3 \<le> length (get_player_game_log db athlete_id season (Some game_id))"
    and "stat_type \<in> {Points, Rebounds, Assists}"
  shows "\<exists>r. calculate_statistical_prediction db athlete_id game_id season stat_type
           = Inr (StatPrediction r)"
proof -
  obtain column where column: "map_of game_log_columns (stat_name stat_type) = Some column"
    by (cases stat_type) (simp_all add: game_log_columns_def)
  show ?thesis
  proof (cases "opponent_query db game_id athlete_id")
    case Nil
    with assms(1) column show ?thesis
      by (simp add: calculate_statistical_prediction_def Let_def)
  next
    case (Cons row rest)
    obtain away_team home_team player_team where row: "row = (away_team, home_team, player_team)"
      by (cases row) auto
    obtain d where "get_opponent_recent_defense db
        (if player_team = away_team then home_team else away_team) game_id season stat_type 10
        = Inr d"
      using defense_column_known [OF assms(2)] by blast
    with assms(1) column Cons row show ?thesis
      by (simp add: calculate_statistical_prediction_def Let_def)
  qed
qed

lemma predict_stat_three_games:
  assumes "get_prop_line db athlete_id game_id stat_type = Inr vegas"
    and "3 \<le> length (get_player_game_log db athlete_id (game_season db game_id) (Some game_id))"
    and "stat_type \<in> {Points, Rebounds, Assists}"
  shows "\<exists>r. predict_stat db athlete_id game_id stat_type = Inr (Prediction r)"
proof -
  obtain sp where "calculate_statistical_prediction db athlete_id game_id
      (game_season db game_id) stat_type = Inr (StatPrediction sp)"
    using statistical_prediction_three_games [OF assms(2,3)] by blast
  with assms(1) show ?thesis
    by (simp add: predict_stat_def Let_def)
qed

text \<open>
  C9. Whenever a statistical estimate is produced, it is the running total (baseline
  plus trend adjustment plus opponent adjustment) multiplied once by
  \<open>1 + 0.125 * k\<close>, where \<open>k\<close> is the number of missing star teammates reported in the
  teammate context; the context's adjustment is \<open>0.125 * k\<close>.
\<close>

theorem teammate_boost_applied_once:
  assumes "calculate_statistical_prediction db athlete_id game_id season stat_type
             = Inr (StatPrediction r)"
  shows "tc_adjustment (sp_teammate_context r)
           = 0.125 * real (length (tc_missing_stars (sp_teammate_context r)))
       \<and> sp_prediction r
           = (sp_baseline r + sp_trend_adj r
              + (case sp_opponent_defense r of None \<Rightarrow> 0 | Some d \<Rightarrow> od_adjustment d))
             * (1 + 0.125 * real (length (tc_missing_stars (sp_teammate_context r))))"
proof (cases "opponent_query db game_id athlete_id")
  case Nil
  with assms show ?thesis
    by (auto simp: calculate_statistical_prediction_def Let_def
        split: if_splits option.splits)
next
  case (Cons row rest)
  obtain away_team home_team player_team where row: "row = (away_team, home_team, player_team)"
    by (cases row) auto
  from assms Cons row show ?thesis
    by (auto simp: calculate_statistical_prediction_def Let_def teammate_adjustment
        split: if_splits option.splits sum.splits)
qed

lemmas teammate_defs =
  get_teammate_context_def stars_query_def star_rows_def group_points_def mean_def
  sort_desc_def

theorem teammate_boost_applied_once_witness:
  "calculate_statistical_prediction season_db ''p1'' ''g4'' ''2024'' Points
     = Inr (StatPrediction (forecast (projr
         (calculate_statistical_prediction season_db ''p1'' ''g4'' ''2024'' Points))))
   \<and> tc_missing_stars (sp_teammate_context (forecast (projr
         (calculate_statistical_prediction season_db ''p1'' ''g4'' ''2024'' Points))))
       = [''Player Two'', ''Player Three'']
   \<and> sp_prediction (forecast (projr
         (calculate_statistical_prediction season_db ''p1'' ''g4'' ''2024'' Points)))
       = (sp_baseline (forecast (projr
            (calculate_statistical_prediction season_db ''p1'' ''g4'' ''2024'' Points)))
          + sp_trend_adj (forecast (projr
            (calculate_statistical_prediction season_db ''p1'' ''g4'' ''2024'' Points)))
          + (320 / 3 - 114.5) * 0.70)
         * 1.25"
proof -
  let ?result = "calculate_statistical_prediction season_db ''p1'' ''g4'' ''2024'' Points"
  let ?r = "forecast (projr ?result)"
  have "\<exists>r. ?result = Inr (StatPrediction r)"
    by (rule statistical_prediction_three_games)
      (simp_all add: get_player_game_log_def game_log_query_def game_log_select_def
        first_index_def season_db_defs)
  then have produced: "?result = Inr (StatPrediction ?r)"
    by auto
  have query: "opponent_query season_db ''g4'' ''p1'' = [(''t1'', ''t2'', ''t1'')]"
    by (simp add: opponent_query_def season_db_defs)
  have defense: "get_opponent_recent_defense season_db ''t2'' ''g4'' ''2024'' Points 10
      = Inr \<lparr>od_adjustment = (320 / 3 - 114.5) * 0.70, od_opponent_avg = Some 106.7,
              od_league_avg = Some 114.5, od_games_analyzed = 3\<rparr>"
    by (simp add: get_opponent_recent_defense_def defense_query_def event_date_def
        defense_select_def defense_columns_def league_averages_def mean_def round_1_def
        rint_def sort_desc_def season_db_defs Let_def)
  have ctx: "get_teammate_context season_db ''p1'' ''g4'' ''t1'' ''2024''
      = \<lparr>tc_missing_stars = [''Player Two'', ''Player Three''], tc_adjustment = 0.25,
         tc_stars_playing = 0, tc_stars_total = 2\<rparr>"
    by (simp add: teammate_defs event_date_def season_db_defs Let_def)
  have games: "3 \<le> length (get_player_game_log season_db ''p1'' ''2024'' (Some ''g4''))"
    by (simp add: get_player_game_log_def game_log_query_def game_log_select_def
        first_index_def season_db_defs)
  have fields: "sp_teammate_context ?r
        = get_teammate_context season_db ''p1'' ''g4'' ''t1'' ''2024''"
    "sp_opponent_defense ?r
        = Some \<lparr>od_adjustment = (320 / 3 - 114.5) * 0.70, od_opponent_avg = Some 106.7,
                od_league_avg = Some 114.5, od_games_analyzed = 3\<rparr>"
    using games
    by (simp_all add: calculate_statistical_prediction_def Let_def query defense
        game_log_columns_def)
  from teammate_boost_applied_once [OF produced] produced fields ctx
  show ?thesis by simp
qed

section \<open>The star teammates\<close>

lemma concat_none:
  "v \<notin> f ` set xs \<Longrightarrow> concat (map (\<lambda>x. if v = f x then g x else []) xs) = []"
  by (induction xs) auto

lemma concat_unique:
  assumes "distinct (map f xs)"
  shows "concat (map (\<lambda>x. if v = f x then g x else []) xs)
    = (case find (\<lambda>x. f x = v) xs of None \<Rightarrow> [] | Some x \<Rightarrow> g x)"
  using assms
proof (induction xs)
  case Nil
  then show ?case by simp
next
  case (Cons x xs)
  show ?case
  proof (cases "v = f x")
    case True
    then have "v \<notin> f ` set xs" using Cons.prems by auto
    then have "concat (map (\<lambda>x. if v = f x then g x else []) xs) = []"
      by (rule concat_none)
    with True show ?thesis by simp
  next
    case False
    then have "f x \<noteq> v" by blast
    with False Cons show ?thesis by simp
  qed
qed

lemma concat_concat_map:
  "concat (map h (concat (map G xs))) = concat (map (\<lambda>x. concat (map h (G x))) xs)"
  by (induction xs) simp_all

lemma star_rows_by_row:
  assumes "distinct (map be_event_id (basic_events db))"
    and "distinct (map a_athlete_id (athletes db))"
  shows "star_rows db athlete_id game_id team_id season
    = concat (map (teammate_row db athlete_id game_id team_id season) (player_boxscores db))"
proof (cases "event_date db game_id")
  case None
  then have "teammate_row db athlete_id game_id team_id season pb = []" for pb
    by (simp add: teammate_row_def played_before_def split: option.splits)
  with None show ?thesis by (simp add: star_rows_def)
next
  case (Some target_date)
  have "concat (map (\<lambda>a. if pb_athlete_id pb = a_athlete_id a
          then concat (map (\<lambda>be.
            if pb_game_id pb = be_event_id be
            then if pb_team_id pb = team_id
              then if pb_season pb = season
                then if pb_athlete_didNotPlay pb = ''0''
                  then if pb_athlete_id pb \<noteq> athlete_id
                    then if be_event_season_type be = 2
                      then if be_date be < target_date
                        then [(pb_athlete_id pb, a_athlete_display_name a, pb_points pb)]
                        else []
                      else []
                    else []
                  else []
                else []
              else []
            else []) (basic_events db))
          else []) (athletes db))
      = teammate_row db athlete_id game_id team_id season pb" for pb
    unfolding concat_unique [OF assms(1)] concat_unique [OF assms(2)]
    by (auto simp: teammate_row_def played_before_def Some split: option.splits)
  with Some show ?thesis
    by (simp add: star_rows_def)
qed

lemma season_points_nonempty:
  "season_points db game_id team_id season i \<noteq> []
     \<longleftrightarrow> (\<exists>pb \<in> set (player_boxscores db).
            pb_athlete_id pb = i \<and> pb_team_id pb = team_id \<and> pb_season pb = season
            \<and> played_before db game_id pb)"
  by (auto simp: season_points_def)

lemma group_points_season_points:
  assumes "distinct (map be_event_id (basic_events db))"
    and "distinct (map a_athlete_id (athletes db))"
    and "find (\<lambda>a. a_athlete_id a = i) (athletes db) = Some a"
    and "i \<noteq> athlete_id"
  shows "group_points (star_rows db athlete_id game_id team_id season)
           (i, a_athlete_display_name a)
         = season_points db game_id team_id season i"
proof -
  have "concat (map (\<lambda>r. if (fst r, fst (snd r)) = (i, a_athlete_display_name a)
                          then [snd (snd r)] else [])
          (teammate_row db athlete_id game_id team_id season pb))
      = (if pb_athlete_id pb = i
         then if pb_team_id pb = team_id
           then if pb_season pb = season
             then if played_before db game_id pb then [pb_points pb] else []
             else []
           else []
         else [])" for pb
    using assms(3,4) by (auto simp: teammate_row_def split: option.splits)
  then show ?thesis
    by (simp add: group_points_def star_rows_by_row [OF assms(1,2)] concat_concat_map
        season_points_def)
qed

lemma in_teammate_row:
  "(i, n, p) \<in> set (teammate_row db athlete_id game_id team_id season pb)
     \<longleftrightarrow> (\<exists>a. find (\<lambda>a. a_athlete_id a = pb_athlete_id pb) (athletes db) = Some a
               \<and> n = a_athlete_display_name a)
          \<and> i = pb_athlete_id pb \<and> p = pb_points pb
          \<and> pb_team_id pb = team_id \<and> pb_season pb = season
          \<and> pb_athlete_id pb \<noteq> athlete_id \<and> played_before db game_id pb"
  by (cases "find (\<lambda>a. a_athlete_id a = pb_athlete_id pb) (athletes db)")
    (auto simp: teammate_row_def)

lemma star_row_keys:
  assumes "distinct (map be_event_id (basic_events db))"
    and "distinct (map a_athlete_id (athletes db))"
  shows "(i, n) \<in> (\<lambda>r. (fst r, fst (snd r))) ` set (star_rows db athlete_id game_id team_id season)
     \<longleftrightarrow> i \<noteq> athlete_id
          \<and> (\<exists>a. find (\<lambda>a. a_athlete_id a = i) (athletes db) = Some a
                 \<and> n = a_athlete_display_name a)
          \<and> season_points db game_id team_id season i \<noteq> []"
proof -
  have "(i, n) \<in> (\<lambda>r. (fst r, fst (snd r))) ` set (star_rows db athlete_id game_id team_id season)
      \<longleftrightarrow> (\<exists>p. (i, n, p) \<in> set (star_rows db athlete_id game_id team_id season))"
    by force
  also have "\<dots> \<longleftrightarrow> (\<exists>p. \<exists>pb \<in> set (player_boxscores db).
      (i, n, p) \<in> set (teammate_row db athlete_id game_id team_id season pb))"
    unfolding star_rows_by_row [OF assms] by auto
  also have "\<dots> \<longleftrightarrow> i \<noteq> athlete_id
          \<and> (\<exists>a. find (\<lambda>a. a_athlete_id a = i) (athletes db) = Some a
                 \<and> n = a_athlete_display_name a)
          \<and> season_points db game_id team_id season i \<noteq> []"
    unfolding in_teammate_row season_points_nonempty by blast
  finally show ?thesis .
qed

lemma find_athlete:
  "i \<in> set (map a_athlete_id (athletes db))
     \<longleftrightarrow> (\<exists>a. find (\<lambda>a. a_athlete_id a = i) (athletes db) = Some a)"
  by (cases "find (\<lambda>a. a_athlete_id a = i) (athletes db)")
    (auto simp: find_None_iff find_Some_iff)

lemma stars_query_ids:
  "set (map fst (stars_query db athlete_id game_id team_id season))
     = {i. \<exists>n. (i, n) \<in> (\<lambda>r. (fst r, fst (snd r)))
                          ` set (star_rows db athlete_id game_id team_id season)
              \<and> 15 < mean (group_points (star_rows db athlete_id game_id team_id season) (i, n))}"
proof -
  let ?rows = "star_rows db athlete_id game_id team_id season"
  let ?keys = "(\<lambda>r. (fst r, fst (snd r))) ` set ?rows"
  have "set (stars_query db athlete_id game_id team_id season)
      = (\<lambda>k. (fst k, snd k, mean (group_points ?rows k)))
          ` {k \<in> ?keys. 15 < mean (group_points ?rows k)}"
    by (auto simp: stars_query_def sort_desc_def Let_def)
  then have "set (map fst (stars_query db athlete_id game_id team_id season))
      = fst ` {k \<in> ?keys. 15 < mean (group_points ?rows k)}"
    by (simp add: image_image)
  also have "\<dots> = {i. \<exists>n. (i, n) \<in> ?keys \<and> 15 < mean (group_points ?rows (i, n))}"
    by force
  finally show ?thesis .
qed

lemma star_ids:
  assumes "distinct (map be_event_id (basic_events db))"
    and "distinct (map a_athlete_id (athletes db))"
  shows "set (map fst (stars_query db athlete_id game_id team_id season))
    = star_teammates db athlete_id game_id team_id season"
proof -
  have "(\<exists>n. (i, n) \<in> (\<lambda>r. (fst r, fst (snd r)))
                        ` set (star_rows db athlete_id game_id team_id season)
            \<and> 15 < mean (group_points (star_rows db athlete_id game_id team_id season) (i, n)))
      \<longleftrightarrow> i \<noteq> athlete_id
          \<and> i \<in> set (map a_athlete_id (athletes db))
          \<and> season_points db game_id team_id season i \<noteq> []
          \<and> 15 < mean (season_points db game_id team_id season i)" for i
    unfolding star_row_keys [OF assms] find_athlete
    using group_points_season_points [OF assms, of i _ athlete_id game_id team_id season]
    by auto
  then show ?thesis
    unfolding stars_query_ids star_teammates_def by simp
qed

lemma guarded_concat:
  "concat (map (\<lambda>x. if A x then if B x then if C x then if D x then [f x] else []
                       else [] else [] else []) xs)
     = map f (filter (\<lambda>x. A x \<and> B x \<and> C x \<and> D x) xs)"
  by (induction xs) simp_all

lemma length_concat_if:
  "length (concat (map (\<lambda>r. if Q r then [g r] else []) xs)) = length (filter Q xs)"
  by (induction xs) simp_all

lemma star_ids_distinct:
  assumes "distinct (map be_event_id (basic_events db))"
    and "distinct (map a_athlete_id (athletes db))"
  shows "distinct (map fst (stars_query db athlete_id game_id team_id season))"
proof -
  let ?rows = "star_rows db athlete_id game_id team_id season"
  let ?groups = "sort (remdups (map (\<lambda>r. (fst r, fst (snd r))) ?rows))"
  let ?averaged = "map (\<lambda>k. (fst k, snd k, mean (group_points ?rows k))) ?groups"
  have named: "\<exists>a. find (\<lambda>a. a_athlete_id a = fst k) (athletes db) = Some a
                 \<and> snd k = a_athlete_display_name a"
    if "k \<in> set ?groups" for k
  proof -
    from that have "(fst k, snd k) \<in> (\<lambda>r. (fst r, fst (snd r))) ` set ?rows"
      by simp
    then show ?thesis
      by (simp only: star_row_keys [OF assms])
  qed
  have "inj_on fst (set ?groups)"
  proof (rule inj_onI)
    fix k k' assume k: "k \<in> set ?groups" and k': "k' \<in> set ?groups" and same: "fst k = fst k'"
    from named [OF k] obtain a
      where a: "find (\<lambda>a. a_athlete_id a = fst k) (athletes db) = Some a"
        "snd k = a_athlete_display_name a"
      by blast
    from named [OF k'] obtain a'
      where a': "find (\<lambda>a. a_athlete_id a = fst k') (athletes db) = Some a'"
        "snd k' = a_athlete_display_name a'"
      by blast
    from a(1) a'(1) same have "a = a'" by simp
    with a(2) a'(2) same show "k = k'"
      by (simp add: prod_eq_iff)
  qed
  then have "distinct (map fst ?groups)"
    by (simp add: distinct_map)
  moreover have "map fst ?averaged = map fst ?groups"
    by simp
  ultimately have "distinct (map fst ?averaged)"
    by (simp only:)
  then have "distinct (map fst (filter (\<lambda>r. snd (snd r) > 15.0) ?averaged))"
    by (rule distinct_map_filter)
  then have "distinct (map fst (sort_desc (\<lambda>r. snd (snd r))
      (filter (\<lambda>r. snd (snd r) > 15.0) ?averaged)))"
    by (simp add: sort_desc_def distinct_map)
  then show ?thesis
    by (simp add: stars_query_def Let_def)
qed

lemma missing_star_count:
  assumes "distinct (map be_event_id (basic_events db))"
    and "distinct (map a_athlete_id (athletes db))"
  shows "length (tc_missing_stars (get_teammate_context db athlete_id game_id team_id season))
    = card {i \<in> star_teammates db athlete_id game_id team_id season.
              \<not> plays_in db game_id team_id i}"
proof -
  let ?stars = "stars_query db athlete_id game_id team_id season"
  let ?ids = "map fst ?stars"
  let ?absent = "\<lambda>i. \<not> plays_in db game_id team_id i"
  have ids: "set ?ids = star_teammates db athlete_id game_id team_id season"
    by (rule star_ids [OF assms])
  define playing where "playing =
    [pb_athlete_id pb.
       pb \<leftarrow> player_boxscores db,
       pb_game_id pb = game_id,
       pb_team_id pb = team_id,
       pb_athlete_id pb \<in> set ?ids,
       pb_athlete_didNotPlay pb = ''0'']"
  have missing: "tc_missing_stars (get_teammate_context db athlete_id game_id team_id season)
      = concat (map (\<lambda>r. if fst r \<in> set ?ids - set playing then [fst (snd r)] else []) ?stars)"
    by (cases "?stars = []") (simp_all add: get_teammate_context_def Let_def playing_def)
  have playing: "set playing = pb_athlete_id ` {pb \<in> set (player_boxscores db).
      pb_game_id pb = game_id \<and> pb_team_id pb = team_id \<and> pb_athlete_id pb \<in> set ?ids
      \<and> pb_athlete_didNotPlay pb = ''0''}"
    unfolding playing_def guarded_concat by simp
  have absent: "(fst r \<in> set ?ids - set playing) = ?absent (fst r)"
    if r: "r \<in> set ?stars" for r
  proof -
    have star: "fst r \<in> set ?ids"
      using r by simp
    have "fst r \<in> set playing \<longleftrightarrow> plays_in db game_id team_id (fst r)"
    proof
      assume "fst r \<in> set playing"
      then obtain pb where "pb \<in> set (player_boxscores db)" "pb_game_id pb = game_id"
        "pb_team_id pb = team_id" "pb_athlete_didNotPlay pb = ''0''" "fst r = pb_athlete_id pb"
        unfolding playing by blast
      then show "plays_in db game_id team_id (fst r)"
        unfolding plays_in_def by (intro bexI [of _ pb]) simp_all
    next
      assume "plays_in db game_id team_id (fst r)"
      then obtain pb where pb: "pb \<in> set (player_boxscores db)" "pb_game_id pb = game_id"
        "pb_team_id pb = team_id" "pb_athlete_didNotPlay pb = ''0''" "pb_athlete_id pb = fst r"
        unfolding plays_in_def by blast
      with star have "pb \<in> {pb \<in> set (player_boxscores db).
          pb_game_id pb = game_id \<and> pb_team_id pb = team_id \<and> pb_athlete_id pb \<in> set ?ids
          \<and> pb_athlete_didNotPlay pb = ''0''}"
        by simp
      then have "pb_athlete_id pb \<in> set playing"
        unfolding playing by (rule imageI)
      with pb(5) show "fst r \<in> set playing"
        by simp
    qed
    with star show ?thesis
      by simp
  qed
  have "length (tc_missing_stars (get_teammate_context db athlete_id game_id team_id season))
      = length (filter (\<lambda>r. fst r \<in> set ?ids - set playing) ?stars)"
    unfolding missing by (rule length_concat_if)
  also have "\<dots> = length (filter (\<lambda>r. ?absent (fst r)) ?stars)"
    by (rule arg_cong [where f = length], rule filter_cong [OF refl]) (rule absent)
  also have "\<dots> = length (filter ?absent ?ids)"
    by (simp add: filter_map comp_def)
  also have "\<dots> = card (set (filter ?absent ?ids))"
    by (rule distinct_card [symmetric]) (simp add: star_ids_distinct [OF assms])
  also have "set (filter ?absent ?ids)
      = {i \<in> star_teammates db athlete_id game_id team_id season. ?absent i}"
    using ids by auto
  finally show ?thesis .
qed

text \<open>
  C5 (as amended). With unique event ids and athlete ids (the tables' primary keys), the
  star teammates are exactly the athletes other than the target player who have a row in
  the athletes table and at least one played regular-season game for the team in the
  season dated before the target game, and whose mean points over those games strictly
  exceed 15; there is no floor on the number of games beyond that one game. The number
  of missing stars is the number of star teammates who did not take part in the target
  game, and the adjustment is 0.125 times that number.
\<close>

theorem star_teammates_characterised:
  assumes "distinct (map be_event_id (basic_events db))"
    and "distinct (map a_athlete_id (athletes db))"
  shows "set (map fst (stars_query db athlete_id game_id team_id season))
      = {i. i \<noteq> athlete_id
            \<and> i \<in> set (map a_athlete_id (athletes db))
            \<and> season_points db game_id team_id season i \<noteq> []
            \<and> 15 < mean (season_points db game_id team_id season i)}
    \<and> length (tc_missing_stars (get_teammate_context db athlete_id game_id team_id season))
      = card {i \<in> star_teammates db athlete_id game_id team_id season.
                \<not> plays_in db game_id team_id i}
    \<and> tc_adjustment (get_teammate_context db athlete_id game_id team_id season)
      = real (card {i \<in> star_teammates db athlete_id game_id team_id season.
                      \<not> plays_in db game_id team_id i}) * 0.125"
  using star_ids [OF assms] missing_star_count [OF assms] teammate_adjustment
  by (simp add: star_teammates_def)

lemmas one_game_db_defs =
  one_game_db_def box_def event_def team_game_def named_def

theorem star_teammates_characterised_witness:
  "distinct (map be_event_id (basic_events one_game_db))
   \<and> distinct (map a_athlete_id (athletes one_game_db))
   \<and> season_points one_game_db ''g2'' ''t1'' ''2024'' ''p2'' = [30]
   \<and> ''p2'' \<in> set (map fst (stars_query one_game_db ''p1'' ''g2'' ''t1'' ''2024''))
   \<and> ''p1'' \<notin> set (map fst (stars_query one_game_db ''p1'' ''g2'' ''t1'' ''2024''))
   \<and> card {i \<in> star_teammates one_game_db ''p1'' ''g2'' ''t1'' ''2024''.
              \<not> plays_in one_game_db ''g2'' ''t1'' i} = 1
   \<and> tc_adjustment (get_teammate_context one_game_db ''p1'' ''g2'' ''t1'' ''2024'') = 0.125"
proof -
  have events: "distinct (map be_event_id (basic_events one_game_db))"
    and people: "distinct (map a_athlete_id (athletes one_game_db))"
    by (simp_all add: one_game_db_defs)
  note characterised =
    star_teammates_characterised [OF events people, of "''p1''" "''g2''" "''t1''" "''2024''"]
  have points: "season_points one_game_db ''g2'' ''t1'' ''2024'' ''p2'' = [30]"
    by (simp add: season_points_def played_before_def event_date_def one_game_db_defs)
  have listed: "''p2'' \<in> set (map a_athlete_id (athletes one_game_db))"
    by (simp add: one_game_db_defs)
  have star: "''p2'' \<in> set (map fst (stars_query one_game_db ''p1'' ''g2'' ''t1'' ''2024''))"
    unfolding conjunct1 [OF characterised] using listed
    by (simp add: points mean_def)
  have other: "''p1'' \<notin> set (map fst (stars_query one_game_db ''p1'' ''g2'' ''t1'' ''2024''))"
    unfolding conjunct1 [OF characterised] by simp
  have "length (tc_missing_stars (get_teammate_context one_game_db ''p1'' ''g2'' ''t1'' ''2024''))
      = 1"
    by (simp add: teammate_defs event_date_def one_game_db_defs Let_def)
  with characterised
  have count: "card {i \<in> star_teammates one_game_db ''p1'' ''g2'' ''t1'' ''2024''.
      \<not> plays_in one_game_db ''g2'' ''t1'' i} = 1"
    and boost: "tc_adjustment (get_teammate_context one_game_db ''p1'' ''g2'' ''t1'' ''2024'')
      = 0.125"
    by simp_all
  from events people points star other count boost show ?thesis
    by blast
qed

text \<open>
  The claim as stated fails: p2 has played one game before g2 and is counted as a star
  teammate missing from g2, with the boost of 12.5 percent.
\<close>

theorem single_game_star_counterexample:
  "star_rows one_game_db ''p1'' ''g2'' ''t1'' ''2024'' = [(''p2'', ''Player Two'', 30)]
   \<and> get_teammate_context one_game_db ''p1'' ''g2'' ''t1'' ''2024''
       = \<lparr>tc_missing_stars = [''Player Two''], tc_adjustment = 0.125,
          tc_stars_playing = 0, tc_stars_total = 1\<rparr>"
  by (simp add: teammate_defs event_date_def one_game_db_defs Let_def)

end
